theory Spec2Isabelle
  imports Complex_Main
begin

section \<open>Errors and dense tensors\<close>

text \<open>
  The rendering layer of \<^verbatim>\<open>iid/lighting_optimization/render.py\<close> works on dense
  numeric grids. A tensor is its shape together with its entries, read by a multi-index.
  Entries are real numbers: the IEEE rounding, infinities and NaN of the float32 arithmetic
  are not part of the model. Every Python exception is a value of \<open>error\<close>.
\<close>

datatype error = AssertionError | ZeroDivisionError | ValueError | IndexError | RuntimeError

record 'a tensor =
  shape :: "nat list"
  el :: "nat list \<Rightarrow> 'a"

definition numel :: "'a tensor \<Rightarrow> nat" where
  "numel t = prod_list (shape t)"

text \<open>A Python slice bound \<open>k\<close> on an axis of length \<open>n\<close>: negative bounds count from
  the end, and every bound is clipped to the axis.\<close>

definition py_bound :: "nat \<Rightarrow> int \<Rightarrow> nat" where
  "py_bound n k = (if k < 0 then nat (int n + k) else min (nat k) n)"

text \<open>\<^verbatim>\<open>t[..., start:stop, ...]\<close> on axis \<open>d\<close> (a missing bound is \<open>None\<close>).\<close>

definition slice :: "nat \<Rightarrow> int option \<Rightarrow> int option \<Rightarrow> 'a tensor \<Rightarrow> 'a tensor" where
  "slice d start stop t =
     (let n = shape t ! d;
          lo = (case start of None \<Rightarrow> 0 | Some k \<Rightarrow> py_bound n k);
          hi = (case stop of None \<Rightarrow> n | Some k \<Rightarrow> py_bound n k)
      in \<lparr>shape = (shape t)[d := hi - lo], el = (\<lambda>idx. el t (idx[d := idx ! d + lo]))\<rparr>)"

text \<open>Elementwise operations keep the shape.\<close>

definition tmap :: "('a \<Rightarrow> 'b) \<Rightarrow> 'a tensor \<Rightarrow> 'b tensor" where
  "tmap f t = \<lparr>shape = shape t, el = (\<lambda>idx. f (el t idx))\<rparr>"

text \<open>\<^verbatim>\<open>t[:, k, ...]\<close> for axis \<open>d = 1\<close>, in general the selection of entry \<open>k\<close> on axis
  \<open>d\<close>, which removes that axis.\<close>

definition select :: "nat \<Rightarrow> nat \<Rightarrow> 'a tensor \<Rightarrow> 'a tensor" where
  "select d k t =
     \<lparr>shape = take d (shape t) @ drop (Suc d) (shape t),
      el = (\<lambda>idx. el t (take d idx @ [k] @ drop d idx))\<rparr>"

text \<open>\<^verbatim>\<open>torch.stack(ts, dim=1)\<close> of tensors of one shape.\<close>

definition stack1 :: "'a tensor list \<Rightarrow> 'a tensor" where
  "stack1 ts =
     \<lparr>shape = take 1 (shape (hd ts)) @ [length ts] @ drop 1 (shape (hd ts)),
      el = (\<lambda>idx. el (ts ! (idx ! 1)) (take 1 idx @ drop 2 idx))\<rparr>"

text \<open>\<^verbatim>\<open>functional.normalize(t, dim=1, eps=eps)\<close>: every entry is divided by the Euclidean
  norm along axis 1, floored at \<open>eps\<close>.\<close>

definition normalize :: "real \<Rightarrow> real tensor \<Rightarrow> real tensor" where
  "normalize eps t =
     \<lparr>shape = shape t,
      el = (\<lambda>idx. el t idx / max (sqrt (\<Sum>c<shape t ! 1. (el t (idx[1 := c]))\<^sup>2)) eps)\<rparr>"

text \<open>\<^verbatim>\<open>t[:, k, ...] = f(t[:, k, ...])\<close> for axis \<open>d = 1\<close>: an in-place update of one
  entry of axis \<open>d\<close>.\<close>

definition map_channel :: "nat \<Rightarrow> nat \<Rightarrow> ('a \<Rightarrow> 'a) \<Rightarrow> 'a tensor \<Rightarrow> 'a tensor" where
  "map_channel d k f t =
     \<lparr>shape = shape t, el = (\<lambda>idx. if idx ! d = k then f (el t idx) else el t idx)\<rparr>"

text \<open>\<^verbatim>\<open>t.unsqueeze(d)\<close>.\<close>

definition unsqueeze :: "nat \<Rightarrow> 'a tensor \<Rightarrow> 'a tensor" where
  "unsqueeze d t =
     \<lparr>shape = take d (shape t) @ [1] @ drop d (shape t),
      el = (\<lambda>idx. el t (take d idx @ drop (Suc d) idx))\<rparr>"

text \<open>Errors propagate through a sequence of statements.\<close>

definition ebind :: "error + 'a \<Rightarrow> ('a \<Rightarrow> error + 'b) \<Rightarrow> error + 'b" where
  "ebind m f = (case m of Inl e \<Rightarrow> Inl e | Inr x \<Rightarrow> f x)"

text \<open>
  Broadcasting. Two shapes are aligned at their last axes; two lengths of an axis agree
  when they are equal or one of them is 1. \<open>bsh\<close> works on the reversed shapes.
\<close>

fun bsh :: "nat list \<Rightarrow> nat list \<Rightarrow> nat list option" where
  "bsh [] ys = Some ys"
| "bsh (x # xs) [] = Some (x # xs)"
| "bsh (x # xs) (y # ys) =
     (if x = y \<or> y = 1 then map_option ((#) x) (bsh xs ys)
      else if x = 1 then map_option ((#) y) (bsh xs ys)
      else None)"

definition bshape :: "nat list \<Rightarrow> nat list \<Rightarrow> nat list option" where
  "bshape a b = map_option rev (bsh (rev a) (rev b))"

text \<open>The index at which a tensor of shape \<open>shp\<close> is read when the broadcast result is
  read at \<open>idx\<close>: the leading axes it lacks are dropped, and an axis of length 1 is read
  at 0.\<close>

definition bidx :: "nat list \<Rightarrow> nat list \<Rightarrow> nat list" where
  "bidx shp idx = rev (map2 (\<lambda>d i. if d = 1 then 0 else i) (rev shp) (rev idx))"

definition bget :: "'a tensor \<Rightarrow> nat list \<Rightarrow> 'a" where
  "bget t idx = el t (bidx (shape t) idx)"

text \<open>A binary elementwise operation with broadcasting; shapes that do not broadcast
  raise \<^verbatim>\<open>RuntimeError\<close>.\<close>

definition bmap :: "('a \<Rightarrow> 'b \<Rightarrow> 'c) \<Rightarrow> nat list \<Rightarrow> 'a tensor \<Rightarrow> 'b tensor \<Rightarrow> 'c tensor" where
  "bmap f s a b = \<lparr>shape = s, el = (\<lambda>idx. f (bget a idx) (bget b idx))\<rparr>"

definition bop :: "('a \<Rightarrow> 'b \<Rightarrow> 'c) \<Rightarrow> 'a tensor \<Rightarrow> 'b tensor \<Rightarrow> error + 'c tensor" where
  "bop f a b = (case bshape (shape a) (shape b) of
      None \<Rightarrow> Inl RuntimeError
    | Some s \<Rightarrow> Inr (bmap f s a b))"

text \<open>\<^verbatim>\<open>t.expand(sizes)\<close>: the tensor has at most as many axes as \<open>sizes\<close>, and each of its
  axes has the requested length or length 1.\<close>

definition expands_to :: "nat list \<Rightarrow> 'a tensor \<Rightarrow> bool" where
  "expands_to sizes t \<longleftrightarrow> length (shape t) \<le> length sizes \<and> bshape (shape t) sizes = Some sizes"

definition expanded :: "nat list \<Rightarrow> 'a tensor \<Rightarrow> 'a tensor" where
  "expanded sizes t = \<lparr>shape = sizes, el = bget t\<rparr>"

definition expand :: "nat list \<Rightarrow> 'a tensor \<Rightarrow> error + 'a tensor" where
  "expand sizes t = (if expands_to sizes t then Inr (expanded sizes t) else Inl RuntimeError)"

text \<open>\<^verbatim>\<open>torch.cat([a, b, c], dim=0)\<close>: the shapes agree on every axis but the first.\<close>

definition concatenated :: "'a tensor \<Rightarrow> 'a tensor \<Rightarrow> 'a tensor \<Rightarrow> 'a tensor" where
  "concatenated a b c =
     (let na = hd (shape a); nb = hd (shape b); nc = hd (shape c)
      in \<lparr>shape = (na + nb + nc) # tl (shape a),
          el = (\<lambda>idx. if idx ! 0 < na then el a idx
                      else if idx ! 0 < na + nb then el b (idx[0 := idx ! 0 - na])
                      else el c (idx[0 := idx ! 0 - na - nb]))\<rparr>)"

definition cat0 :: "'a tensor \<Rightarrow> 'a tensor \<Rightarrow> 'a tensor \<Rightarrow> error + 'a tensor" where
  "cat0 a b c =
     (if shape a = [] \<or> shape b = [] \<or> shape c = [] then Inl RuntimeError
      else if tl (shape a) \<noteq> tl (shape b) \<or> tl (shape a) \<noteq> tl (shape c) then Inl RuntimeError
      else Inr (concatenated a b c))"

text \<open>\<^verbatim>\<open>t.permute(perm)\<close>: axis \<open>k\<close> of the result is axis \<open>perm ! k\<close> of \<open>t\<close>. The number
  of axes must be the length of \<open>perm\<close>.\<close>

definition axis_position :: "nat list \<Rightarrow> nat \<Rightarrow> nat" where
  "axis_position perm d = length (takeWhile (\<lambda>x. x \<noteq> d) perm)"

definition permuted :: "nat list \<Rightarrow> 'a tensor \<Rightarrow> 'a tensor" where
  "permuted perm t =
     \<lparr>shape = map (\<lambda>k. shape t ! k) perm,
      el = (\<lambda>idx. el t (map (\<lambda>d. idx ! axis_position perm d) [0..<length perm]))\<rparr>"

definition permute :: "nat list \<Rightarrow> 'a tensor \<Rightarrow> error + 'a tensor" where
  "permute perm t =
     (if length (shape t) \<noteq> length perm then Inl RuntimeError else Inr (permuted perm t))"

text \<open>Row-major positions, for \<^verbatim>\<open>reshape\<close> and \<^verbatim>\<open>view\<close> of a contiguous tensor.\<close>

fun flat_index :: "nat list \<Rightarrow> nat list \<Rightarrow> nat" where
  "flat_index (d # ds) (i # is) = i * prod_list ds + flat_index ds is"
| "flat_index _ _ = 0"

fun unflat_index :: "nat list \<Rightarrow> nat \<Rightarrow> nat list" where
  "unflat_index [] k = []"
| "unflat_index (d # ds) k = (k div prod_list ds) # unflat_index ds (k mod prod_list ds)"

text \<open>\<^verbatim>\<open>t.view(sizes)\<close> and \<^verbatim>\<open>t.reshape(sizes)\<close> with every size given: the number of
  entries must be kept.\<close>

definition reshaped :: "nat list \<Rightarrow> 'a tensor \<Rightarrow> 'a tensor" where
  "reshaped sizes t =
     \<lparr>shape = sizes, el = (\<lambda>idx. el t (unflat_index (shape t) (flat_index sizes idx)))\<rparr>"

definition reshape :: "nat list \<Rightarrow> 'a tensor \<Rightarrow> error + 'a tensor" where
  "reshape sizes t =
     (if prod_list sizes \<noteq> numel t then Inl RuntimeError else Inr (reshaped sizes t))"

text \<open>\<^verbatim>\<open>t.reshape(k, -1, 3)\<close> and \<^verbatim>\<open>t.reshape(-1, 3)\<close>: one size is inferred. Torch refuses
  when the given sizes multiply to 0 or do not divide the number of entries.\<close>

definition reshape_infer :: "nat list \<Rightarrow> nat list \<Rightarrow> 'a tensor \<Rightarrow> error + 'a tensor" where
  "reshape_infer before after t =
     (let given = prod_list before * prod_list after
      in if given = 0 \<or> numel t mod given \<noteq> 0 then Inl RuntimeError
         else reshape (before @ [numel t div given] @ after) t)"

text \<open>\<^verbatim>\<open>torch.mean(t, dim=1)\<close>. The mean over an empty axis is NaN in torch and \<open>0\<close>
  here.\<close>

definition mean1 :: "real tensor \<Rightarrow> real tensor" where
  "mean1 t =
     \<lparr>shape = take 1 (shape t) @ drop 2 (shape t),
      el = (\<lambda>idx. (\<Sum>s<shape t ! 1. el t (take 1 idx @ [s] @ drop 1 idx)) / real (shape t ! 1))\<rparr>"

section \<open>Construction of the layer\<close>

text \<open>
  The state of an \<^verbatim>\<open>IIR_SSRT_RenderLayer\<close>: the attributes set by \<^verbatim>\<open>__init__\<close> and
  its three registered buffers \<^verbatim>\<open>v\<close>, \<^verbatim>\<open>pCoord\<close> and \<^verbatim>\<open>up\<close>.
\<close>

record render_layer =
  imHeight :: int
  imWidth :: int
  use_ssrt :: bool
  use_specular :: bool
  double_sided :: bool
  fov :: real
  cameraPos :: "real tensor"
  xRange :: real
  yRange :: real
  brdf_type :: string
  spp :: int
  buf_v :: "real tensor"
  buf_pCoord :: "real tensor"
  buf_up :: "real tensor"

text \<open>Entry \<open>i\<close> of \<^verbatim>\<open>np.linspace(start, stop, num)\<close>.\<close>

definition linspace :: "real \<Rightarrow> real \<Rightarrow> nat \<Rightarrow> nat \<Rightarrow> real" where
  "linspace start stop num i =
     (if num \<le> 1 then start else start + real i * ((stop - start) / real (num - 1)))"

text \<open>
  \<^verbatim>\<open>__init__(imWidth, imHeight, fov, cameraPos, brdf_type, spp, double_sided, use_ssrt,
  use_specular)\<close>, lines 17-60. The statements that can raise are, in this order:
  the reshape of \<^verbatim>\<open>cameraPos\<close> to \<open>[1, 3, 1, 1]\<close> (line 36), the float division
  \<^verbatim>\<open>float(imHeight) / float(imWidth)\<close> (line 38) and the two calls of \<^verbatim>\<open>np.linspace\<close>,
  which refuse a negative number of samples (lines 39-40). Nothing else is checked: the
  assertion on \<^verbatim>\<open>brdf_type\<close> (line 54) is commented out in the source.
\<close>

definition init ::
  "int \<Rightarrow> int \<Rightarrow> real \<Rightarrow> real list \<Rightarrow> string \<Rightarrow> int \<Rightarrow> bool \<Rightarrow> bool \<Rightarrow> bool \<Rightarrow> error + render_layer" where
  "init imWidth0 imHeight0 fov0 cameraPos0 brdf_type0 spp0 double_sided0 use_ssrt0 use_specular0 =
     (if length cameraPos0 \<noteq> 3 then Inl ValueError
      else if imWidth0 = 0 then Inl ZeroDivisionError
      else if imWidth0 < 0 \<or> imHeight0 < 0 then Inl ValueError
      else
        let fov1 = fov0 / 180 * pi;
            xR = 1 * tan (fov1 / 2);
            yR = real_of_int imHeight0 / real_of_int imWidth0 * xR;
            H = nat imHeight0;
            W = nat imWidth0;
            pC = \<lparr>shape = [1, 3, H, W],
                  el = (\<lambda>idx. if idx ! 1 = 0 then linspace (- xR) xR W (idx ! 3)
                              else if idx ! 1 = 1 then linspace (- yR) yR H (H - 1 - idx ! 2)
                              else - 1)\<rparr>;
            cam = \<lparr>shape = [1, 3, 1, 1], el = (\<lambda>idx. cameraPos0 ! (idx ! 1))\<rparr>;
            d = \<lparr>shape = [1, 3, H, W], el = (\<lambda>idx. cameraPos0 ! (idx ! 1) - el pC idx)\<rparr>;
            vn = \<lparr>shape = [1, 3, H, W],
                  el = (\<lambda>idx. el d idx / sqrt (max (\<Sum>c<3. (el d (idx[1 := c]))\<^sup>2) (1 / 10 ^ 12)))\<rparr>
        in Inr \<lparr>imHeight = imHeight0, imWidth = imWidth0, use_ssrt = use_ssrt0,
                use_specular = use_specular0, double_sided = double_sided0, fov = fov1,
                cameraPos = cam, xRange = xR, yRange = yR, brdf_type = brdf_type0, spp = spp0,
                buf_v = vn, buf_pCoord = pC,
                buf_up = \<lparr>shape = [3], el = (\<lambda>idx. if idx ! 0 = 1 then 1 else 0)\<rparr>\<rparr>)"

section \<open>The orthonormal frame\<close>

text \<open>
  \<^verbatim>\<open>create_frame(n, eps)\<close>, lines 259-271 (Duff et al., Building an Orthonormal Basis,
  Revisited). The normalisation along axis 1 needs that axis, and \<^verbatim>\<open>z[:,2,...]\<close> needs
  three entries on it; the other operations combine selections of \<open>z\<close>, which have one
  shape.
  \<^verbatim>\<open>
  z = functional.normalize(n, dim=1, eps=eps)
  sgn = torch.where(z[:,2,...] >= 0, 1.0, -1.0)
  a = -1.0 / (sgn + z[:,2,...])
  b = z[:,0,...] * z[:,1,...] * a
  x = torch.stack([1.0 + sgn * z[:,0,...] * z[:,0,...] * a, sgn * b, -sgn * z[:,0,...]], dim=1)
  y = torch.stack([b, sgn + z[:,1,...] * z[:,1,...] * a, -z[:,1,...]], dim=1)
  return x, y, z
  \<close>
\<close>

definition create_frame ::
  "real tensor \<Rightarrow> real \<Rightarrow> error + (real tensor \<times> real tensor \<times> real tensor)" where
  "create_frame n eps =
     (if length (shape n) < 2 then Inl IndexError
      else if shape n ! 1 < 3 then Inl IndexError
      else
        let z = normalize eps n;
            z0 = select 1 0 z;
            z1 = select 1 1 z;
            z2 = select 1 2 z;
            sgn = tmap (\<lambda>v. if v \<ge> 0 then 1 else - 1) z2;
            a = \<lparr>shape = shape z2, el = (\<lambda>p. - 1 / (el sgn p + el z2 p))\<rparr>;
            b = \<lparr>shape = shape z2, el = (\<lambda>p. el z0 p * el z1 p * el a p)\<rparr>;
            x = stack1
                  [\<lparr>shape = shape z2, el = (\<lambda>p. 1 + el sgn p * el z0 p * el z0 p * el a p)\<rparr>,
                   \<lparr>shape = shape z2, el = (\<lambda>p. el sgn p * el b p)\<rparr>,
                   \<lparr>shape = shape z2, el = (\<lambda>p. - el sgn p * el z0 p)\<rparr>];
            y = stack1
                  [b,
                   \<lparr>shape = shape z2, el = (\<lambda>p. el sgn p + el z1 p * el z1 p * el a p)\<rparr>,
                   \<lparr>shape = shape z2, el = (\<lambda>p. - el z1 p)\<rparr>]
        in Inr (x, y, z))"

text \<open>The vector along axis 1 at the position of \<open>idx\<close>, and the products of two such
  vectors.\<close>

definition vec_at :: "real tensor \<Rightarrow> nat list \<Rightarrow> real \<times> real \<times> real" where
  "vec_at t idx = (el t (idx[1 := 0]), el t (idx[1 := 1]), el t (idx[1 := 2]))"

fun dot :: "real \<times> real \<times> real \<Rightarrow> real \<times> real \<times> real \<Rightarrow> real" where
  "dot (a1, a2, a3) (b1, b2, b3) = a1 * b1 + a2 * b2 + a3 * b3"

fun cross :: "real \<times> real \<times> real \<Rightarrow> real \<times> real \<times> real \<Rightarrow> real \<times> real \<times> real" where
  "cross (a1, a2, a3) (b1, b2, b3) = (a2 * b3 - a3 * b2, a3 * b1 - a1 * b3, a1 * b2 - a2 * b1)"

text \<open>
  The same computation at one position, on the vector \<open>(n0, n1, n2)\<close> that the input
  has there along axis 1: \<open>frame_denominator\<close> is the denominator \<^verbatim>\<open>sgn + z[:,2,...]\<close>
  of line 267. Lemma \<open>frame_at_eq\<close> below shows that \<open>create_frame\<close> computes
  \<open>frame_of\<close> at every position of a three-channel input.
\<close>

definition frame_denominator :: "real \<Rightarrow> real" where
  "frame_denominator z2 = (if z2 \<ge> 0 then 1 else - 1) + z2"

definition frame_of ::
  "real \<times> real \<times> real \<Rightarrow> real \<Rightarrow>
   (real \<times> real \<times> real) \<times> (real \<times> real \<times> real) \<times> (real \<times> real \<times> real)" where
  "frame_of n eps = (case n of (n0, n1, n2) \<Rightarrow>
     let N = max (sqrt (n0\<^sup>2 + n1\<^sup>2 + n2\<^sup>2)) eps;
         x = n0 / N; y = n1 / N; z = n2 / N;
         s = (if z \<ge> 0 then 1 else - 1);
         a = - 1 / frame_denominator z
     in ((1 + s * x * x * a, s * (x * y * a), - s * x), (x * y * a, s + y * y * a, - y), (x, y, z)))"

definition frame_at ::
  "real tensor \<Rightarrow> real \<Rightarrow> nat list \<Rightarrow>
   error + ((real \<times> real \<times> real) \<times> (real \<times> real \<times> real) \<times> (real \<times> real \<times> real))" where
  "frame_at n eps idx = (case create_frame n eps of Inl e \<Rightarrow> Inl e
     | Inr (x, y, z) \<Rightarrow> Inr (vec_at x idx, vec_at y idx, vec_at z idx))"

text \<open>Three mutually orthogonal unit vectors that form a right-handed basis.\<close>

definition orthonormal_rh ::
  "(real \<times> real \<times> real) \<times> (real \<times> real \<times> real) \<times> (real \<times> real \<times> real) \<Rightarrow> bool" where
  "orthonormal_rh F = (case F of (x, y, z) \<Rightarrow>
     dot x x = 1 \<and> dot y y = 1 \<and> dot z z = 1 \<and> dot x y = 0 \<and> dot x z = 0 \<and> dot y z = 0 \<and>
     cross x y = z)"

text \<open>A \<open>1 \<times> 1\<close> normal map that holds one vector.\<close>

definition const_normal :: "real \<times> real \<times> real \<Rightarrow> real tensor" where
  "const_normal n = (case n of (n0, n1, n2) \<Rightarrow>
     \<lparr>shape = [1, 3, 1, 1],
      el = (\<lambda>idx. if idx ! 1 = 0 then n0 else if idx ! 1 = 1 then n1 else n2)\<rparr>)"

section \<open>The clipping window of \<^verbatim>\<open>forward\<close>\<close>

text \<open>
  Lines 83-85 and 110-113 of \<^verbatim>\<open>render.py\<close>:
  \<^verbatim>\<open>
  center_x = col // 2;  center_y = row // 2;  radius = max(center_x, center_y)
  left = max(center_x - radius, 0);  right = center_x + radius
  top = max(center_y - radius, 0);   bottom = center_y + radius
  \<close>
  The result is \<open>(top, bottom, left, right)\<close>.
\<close>

definition clip_window :: "int \<Rightarrow> int \<Rightarrow> int \<times> int \<times> int \<times> int" where
  "clip_window row col =
     (let center_x = col div 2;
          center_y = row div 2;
          radius = max center_x center_y;
          w_left = max (center_x - radius) 0;
          w_right = center_x + radius;
          w_top = max (center_y - radius) 0;
          w_bottom = center_y + radius
      in (w_top, w_bottom, w_left, w_right))"

text \<open>\<^verbatim>\<open>t[:, :, top:bottom, left:right]\<close>, the clipping of one rank-4 grid.\<close>

definition clip4 :: "int \<times> int \<times> int \<times> int \<Rightarrow> 'a tensor \<Rightarrow> 'a tensor" where
  "clip4 w t = (case w of (w_top, w_bottom, w_left, w_right) \<Rightarrow>
     slice 3 (Some w_left) (Some w_right) (slice 2 (Some w_top) (Some w_bottom) t))"

definition clip5 :: "int \<times> int \<times> int \<times> int \<Rightarrow> 'a tensor \<Rightarrow> 'a tensor" where
  "clip5 w t = (case w of (w_top, w_bottom, w_left, w_right) \<Rightarrow>
     slice 4 (Some w_left) (Some w_right) (slice 3 (Some w_top) (Some w_bottom) t))"

text \<open>The rows and columns of a \<open>row \<times> col\<close> grid that the slicing with the window keeps:
  \<open>(first row, row after the last, first column, column after the last)\<close>.\<close>

definition clip_extent :: "nat \<Rightarrow> nat \<Rightarrow> nat \<times> nat \<times> nat \<times> nat" where
  "clip_extent row col = (case clip_window (int row) (int col) of (w_top, w_bottom, w_left, w_right) \<Rightarrow>
     (py_bound row w_top, py_bound row w_bottom, py_bound col w_left, py_bound col w_right))"

definition in_clip_window :: "nat \<Rightarrow> nat \<Rightarrow> nat \<Rightarrow> nat \<Rightarrow> bool" where
  "in_clip_window row col i j = (case clip_extent row col of (t, b, l, r) \<Rightarrow>
     t \<le> i \<and> i < b \<and> l \<le> j \<and> j < r)"

text \<open>
  The window as the specification words it: the largest axis-aligned square centred on the
  image that fits within the image bounds. Its side is \<open>min row col\<close>.
\<close>

definition spec_central_square :: "nat \<Rightarrow> nat \<Rightarrow> nat \<times> nat \<times> nat \<times> nat" where
  "spec_central_square row col =
     (let side = min row col; s_top = (row - side) div 2; s_left = (col - side) div 2
      in (s_top, s_top + side, s_left, s_left + side))"

definition in_spec_central_square :: "nat \<Rightarrow> nat \<Rightarrow> nat \<Rightarrow> nat \<Rightarrow> bool" where
  "in_spec_central_square row col i j = (case spec_central_square row col of (t, b, l, r) \<Rightarrow>
     t \<le> i \<and> i < b \<and> l \<le> j \<and> j < r)"

section \<open>The collaborators of \<^verbatim>\<open>forward\<close>\<close>

text \<open>
  \<^verbatim>\<open>forward\<close> calls code that is not part of \<^verbatim>\<open>render.py\<close>: the lighting model, the BRDF
  kernels of \<^verbatim>\<open>iid.lighting_optimization.brdf\<close> and the screen-space tracer. They are
  parameters of the model: functions on tensors that return a tensor or raise.
  \<open>lm_spp\<close> is \<^verbatim>\<open>lighting_model.spp\<close> and \<open>radiance\<close> is the call
  \<^verbatim>\<open>lighting_model(direction=...)\<close>.
\<close>

record lighting_model =
  lm_spp :: nat
  sample_direction :: "real tensor \<Rightarrow> real tensor \<Rightarrow> error + real tensor"
  pdf_direction :: "real tensor \<Rightarrow> real tensor \<Rightarrow> error + real tensor"
  radiance :: "real tensor \<Rightarrow> error + real tensor"

record brdf_kernels =
  pdf_ggx :: "real tensor \<Rightarrow> real tensor \<Rightarrow> real tensor \<Rightarrow> real tensor \<Rightarrow> real tensor
                \<Rightarrow> error + real tensor"
  eval_ggx :: "real tensor \<Rightarrow> real tensor \<Rightarrow> real tensor \<Rightarrow> real tensor \<Rightarrow> real tensor
                \<Rightarrow> error + (real tensor \<times> real tensor \<times> real tensor)"
  pdf_diffuse :: "real tensor \<Rightarrow> real tensor \<Rightarrow> error + real tensor"
  eval_diffuse :: "real tensor \<Rightarrow> real tensor \<Rightarrow> real tensor
                \<Rightarrow> error + (real tensor \<times> real tensor \<times> real tensor)"
  pdf_disney :: "real tensor \<Rightarrow> real tensor \<Rightarrow> real tensor \<Rightarrow> real tensor \<Rightarrow> error + real tensor"
  eval_disney :: "real tensor \<Rightarrow> real tensor \<Rightarrow> real tensor \<Rightarrow> real tensor \<Rightarrow> real tensor
                \<Rightarrow> error + (real tensor \<times> real tensor \<times> real tensor)"

text \<open>
  The tracer stands for lines 170-201: the call \<^verbatim>\<open>ssrt(depth, normal, indices, proj, X, Y,
  ssrt_direction, depth_start)\<close> together with the preparation of its arguments from the
  layer, \<^verbatim>\<open>vpos\<close>, the image size and the clipping window. The preparation builds a
  projection with \<^verbatim>\<open>glm.perspective\<close> and patches IEEE infinities, which real arithmetic
  does not have; nothing it computes is read again except through the three results
  \<^verbatim>\<open>ssrt_uv, mask, dz\<close>.
\<close>

type_synonym tracer =
  "render_layer \<Rightarrow> real tensor \<Rightarrow> real tensor \<Rightarrow> int \<times> int \<times> int \<times> int \<Rightarrow> real tensor
     \<Rightarrow> error + (int tensor \<times> bool tensor \<times> real tensor)"

section \<open>The stages of \<^verbatim>\<open>forward\<close>\<close>

text \<open>
  Lines 91-92: the frame of the normal map and its rows.
  \<^verbatim>\<open>
  cx, cy, cz = create_frame(normal)
  fx, fy, fz = torch.split(torch.cat([cx, cy, cz], dim=0).permute(1,0,2,3), 1, dim=0)
  \<close>
  The concatenation needs three channels in \<open>cz\<close>, since \<open>cx\<close> and \<open>cy\<close> have three; so the
  permuted tensor has length 3 on axis 0 and the split gives the three parts that the
  assignment unpacks.
\<close>

definition local_axes ::
  "real tensor \<Rightarrow>
   error + (real tensor \<times> real tensor \<times> real tensor \<times> real tensor \<times> real tensor \<times> real tensor)" where
  "local_axes normal =
     ebind (create_frame normal (1 / 10 ^ 6)) (\<lambda>(cx, cy, cz).
     ebind (cat0 cx cy cz) (\<lambda>c.
     ebind (permute [1, 0, 2, 3] c) (\<lambda>f.
       Inr (cx, cy, cz,
            slice 0 (Some 0) (Some 1) f, slice 0 (Some 1) (Some 2) f, slice 0 (Some 2) (Some 3) f))))"

text \<open>
  The transformation of a world-space direction field \<open>d\<close>, with its three components on
  axis \<open>ax\<close>, into the local frames (lines 96-98 with \<open>ax = 1\<close>, lines 128-130 with
  \<open>ax = 2\<close>):
  \<^verbatim>\<open>d[:, 0:1, ...] * fx + d[:, 1:2, ...] * fy + d[:, 2:3, ...] * fz\<close>.
\<close>

definition to_local ::
  "nat \<Rightarrow> real tensor \<Rightarrow> real tensor \<Rightarrow> real tensor \<Rightarrow> real tensor \<Rightarrow> error + real tensor" where
  "to_local ax d fx fy fz =
     (if length (shape d) \<le> ax then Inl IndexError
      else
        ebind (bop (*) (slice ax (Some 0) (Some 1) d) fx) (\<lambda>a.
        ebind (bop (*) (slice ax (Some 1) (Some 2) d) fy) (\<lambda>b.
        ebind (bop (+) a b) (\<lambda>ab.
        ebind (bop (*) (slice ax (Some 2) (Some 3) d) fz) (\<lambda>c.
        bop (+) ab c)))))"

text \<open>Double-sided folding \<^verbatim>\<open>t[:, 2, ...] = torch.abs(t[:, 2, ...])\<close> (line 100, and line
  132 on axis 2). The indexing needs three entries on the axis.\<close>

definition fold_z :: "nat \<Rightarrow> real tensor \<Rightarrow> error + real tensor" where
  "fold_z ax t = (if shape t ! ax < 3 then Inl IndexError else Inr (map_channel ax 2 abs t))"

text \<open>The grazing mask of lines 102-103:
  \<^verbatim>\<open>torch.where(wi[:, 2:3, ...] < 1e-6, zeros_like(...), ones_like(...))\<close>.\<close>

definition grazing_mask :: "real tensor \<Rightarrow> real tensor" where
  "grazing_mask t = tmap (\<lambda>z. if z < 1 / 10 ^ 6 then 0 else 1) (slice 1 (Some 2) (Some 3) t)"

text \<open>The clamp of line 105: \<^verbatim>\<open>wi[:, 2, ...] = torch.clamp(wi[:, 2, ...], min=1e-3)\<close>.\<close>

definition clamp_z :: "real tensor \<Rightarrow> error + real tensor" where
  "clamp_z t =
     (if shape t ! 1 < 3 then Inl IndexError else Inr (map_channel 1 2 (\<lambda>z. max z (1 / 1000)) t))"

text \<open>
  Lines 95-107: the view direction \<^verbatim>\<open>self.v\<close> in the local frames. \<open>view_local\<close> is
  \<^verbatim>\<open>wi\<close> after the folding of line 100, before the mask is taken and the z-component is
  clamped. The result of \<open>view_direction\<close> is \<^verbatim>\<open>wi\<close> with its new sample axis, and
  \<^verbatim>\<open>wi_mask\<close>.
\<close>

definition view_local ::
  "render_layer \<Rightarrow> real tensor \<Rightarrow> real tensor \<Rightarrow> real tensor \<Rightarrow> error + real tensor" where
  "view_local L fx fy fz =
     ebind (to_local 1 (buf_v L) fx fy fz) (\<lambda>wi0.
       if double_sided L then fold_z 1 wi0 else Inr wi0)"

definition view_direction ::
  "render_layer \<Rightarrow> real tensor \<Rightarrow> real tensor \<Rightarrow> real tensor \<Rightarrow> error + (real tensor \<times> real tensor)" where
  "view_direction L fx fy fz =
     ebind (view_local L fx fy fz) (\<lambda>wi1.
     let wi_mask = grazing_mask wi1 in
     ebind (clamp_z wi1) (\<lambda>wi2.
       Inr (unsqueeze 1 (normalize (1 / 10 ^ 6) wi2), wi_mask)))"

text \<open>
  Lines 127-138: the directions to the light. The lighting model samples \<^verbatim>\<open>wo_emitter\<close>,
  \<^verbatim>\<open>wo\<close> is its image in the local frames, and \<^verbatim>\<open>direction\<close> lists the sampled
  directions per sample.
  \<^verbatim>\<open>
  wo_emitter = lighting_model.sample_direction(vpos=vpos.unsqueeze(1), normal=normal.unsqueeze(1))
  wo = (wo_emitter[:, :, 0:1, ...] * fx.unsqueeze(1) + ... )
  if self.double_sided:
      wo[:, :, 2, ...] = torch.abs(wo[:, :, 2, ...].clone())
  direction = wo_emitter.permute(0, 1, 3, 4, 2).permute(1, 0, 2, 3, 4)
  direction = direction.reshape(lighting_model.spp, -1, 3)
  \<close>
\<close>

definition light_direction ::
  "render_layer \<Rightarrow> lighting_model \<Rightarrow> real tensor \<Rightarrow> real tensor \<Rightarrow> real tensor \<Rightarrow> real tensor
     \<Rightarrow> real tensor \<Rightarrow> error + (real tensor \<times> real tensor \<times> real tensor)" where
  "light_direction L lm fx fy fz normal vpos =
     (if length (shape vpos) < 1 then Inl IndexError
      else
        ebind (sample_direction lm (unsqueeze 1 vpos) (unsqueeze 1 normal)) (\<lambda>wo_emitter.
        ebind (to_local 2 wo_emitter (unsqueeze 1 fx) (unsqueeze 1 fy) (unsqueeze 1 fz)) (\<lambda>wo0.
        ebind (if double_sided L then fold_z 2 wo0 else Inr wo0) (\<lambda>wo.
        ebind (permute [0, 1, 3, 4, 2] wo_emitter) (\<lambda>d1.
        ebind (permute [1, 0, 2, 3, 4] d1) (\<lambda>d2.
        ebind (reshape_infer [lm_spp lm] [3] d2) (\<lambda>direction.
          Inr (wo_emitter, wo, direction))))))))"

text \<open>
  Lines 141-149: the BRDF kernels, chosen by \<^verbatim>\<open>self.brdf_type\<close>. Every value other than
  \<^verbatim>\<open>"ggx"\<close> and \<^verbatim>\<open>"diffuse"\<close> selects the Disney kernels. The result is
  \<^verbatim>\<open>pdfs, eval_diff, eval_spec\<close>; the mask that the evaluation returns is not read.
\<close>

definition brdf_eval ::
  "render_layer \<Rightarrow> brdf_kernels \<Rightarrow> real tensor \<Rightarrow> real tensor \<Rightarrow> real tensor \<Rightarrow> real tensor
     \<Rightarrow> real tensor \<Rightarrow> error + (real tensor \<times> real tensor \<times> real tensor)" where
  "brdf_eval L K albedo_clip rough_clip metal_clip wi wo =
     (if brdf_type L = ''ggx'' then
        ebind (pdf_ggx K albedo_clip rough_clip metal_clip wi wo) (\<lambda>p.
        if length (shape p) < 2 then Inl IndexError
        else ebind (eval_ggx K albedo_clip rough_clip metal_clip wi wo) (\<lambda>(eval_diff, eval_spec, m).
          Inr (unsqueeze 2 p, eval_diff, eval_spec)))
      else if brdf_type L = ''diffuse'' then
        ebind (pdf_diffuse K wi wo) (\<lambda>p.
        ebind (eval_diffuse K albedo_clip wi wo) (\<lambda>(eval_diff, eval_spec, m).
          Inr (p, eval_diff, eval_spec)))
      else
        ebind (pdf_disney K rough_clip metal_clip wi wo) (\<lambda>p.
        if length (shape p) < 2 then Inl IndexError
        else ebind (eval_disney K albedo_clip rough_clip metal_clip wi wo) (\<lambda>(eval_diff, eval_spec, m).
          Inr (unsqueeze 2 p, eval_diff, eval_spec))))"

text \<open>
  Lines 151-156: the weighting density of the BRDF terms.
  \<^verbatim>\<open>
  pdfs_brdf = torch.ones_like(pdfs)
  pdfs_brdf = torch.clamp(pdfs_brdf, min=0.001)
  brdfDiffuse = eval_diff.expand([1, lighting_model.spp, 3, irow, icol]) / pdfs_brdf
  brdfSpec = eval_spec.expand([1, lighting_model.spp, 3, irow, icol]) / pdfs_brdf
  \<close>
\<close>

definition brdf_density :: "real tensor \<Rightarrow> real tensor" where
  "brdf_density pdfs = tmap (\<lambda>p. max p (1 / 1000)) (tmap (\<lambda>p. 1) pdfs)"

definition brdf_weighted ::
  "nat list \<Rightarrow> real tensor \<Rightarrow> real tensor \<Rightarrow> error + real tensor" where
  "brdf_weighted grid eval pdfs_brdf = ebind (expand grid eval) (\<lambda>e. bop (/) e pdfs_brdf)"

text \<open>
  The screen-space block, lines 165-230, runs when \<^verbatim>\<open>self.use_ssrt\<close> is set. Only the
  last sample of \<^verbatim>\<open>direction\<close> is kept and traced:
  \<^verbatim>\<open>
  direction = direction[-1:, ...]
  ssrt_spp = 1
  ssrt_direction = direction.reshape(-1, 3)
  \<close>
\<close>

definition last_sample :: "'a tensor \<Rightarrow> 'a tensor" where
  "last_sample direction = slice 0 (Some (- 1)) None direction"

text \<open>\<^verbatim>\<open>t[~mask, ...] = v\<close>: the mask has the shape of the leading axes of \<open>t\<close>.\<close>

definition mask_filled :: "bool tensor \<Rightarrow> 'a \<Rightarrow> 'a tensor \<Rightarrow> 'a tensor" where
  "mask_filled hit v t =
     \<lparr>shape = shape t,
      el = (\<lambda>idx. if el hit (take (length (shape hit)) idx) then el t idx else v)\<rparr>"

definition mask_fill :: "bool tensor \<Rightarrow> 'a \<Rightarrow> 'a tensor \<Rightarrow> error + 'a tensor" where
  "mask_fill hit v t =
     (if shape hit = take (length (shape hit)) (shape t) then Inr (mask_filled hit v t)
      else Inl IndexError)"

text \<open>\<^verbatim>\<open>t.flip(1)\<close>.\<close>

definition flipped :: "'a tensor \<Rightarrow> 'a tensor" where
  "flipped t = \<lparr>shape = shape t, el = (\<lambda>idx. el t (idx[1 := shape t ! 1 - 1 - idx ! 1]))\<rparr>"

definition flip1 :: "'a tensor \<Rightarrow> error + 'a tensor" where
  "flip1 t = (if length (shape t) < 2 then Inl IndexError else Inr (flipped t))"

text \<open>
  Lines 203-207, on the results of the tracer:
  \<^verbatim>\<open>
  ssrt_uv[~mask, ...] = -1
  uncertainty = torch.tanh(10 * dz)
  ssrt_uv = ssrt_uv.flip(1)
  uncertainty[~mask, ...] = 1
  \<close>
\<close>

definition ssrt_post ::
  "int tensor \<Rightarrow> bool tensor \<Rightarrow> real tensor \<Rightarrow> error + (int tensor \<times> real tensor)" where
  "ssrt_post ssrt_uv hit dz =
     ebind (mask_fill hit (- 1) ssrt_uv) (\<lambda>uv1.
     let uncertainty = tmap (\<lambda>d. tanh (10 * d)) dz in
     ebind (flip1 uv1) (\<lambda>uv2.
     ebind (mask_fill hit 1 uncertainty) (\<lambda>uncertainty1.
       Inr (uv2, uncertainty1))))"

text \<open>
  Lines 216-230 gather the arguments \<^verbatim>\<open>model_kwargs\<close>, which nothing reads afterwards;
  what remains of them is that they can raise. \<^verbatim>\<open>t[indices, :, u, v]\<close> needs four axes,
  index tensors that broadcast, and every index within \<open>-n \<le> k < n\<close> for its axis of
  length \<open>n\<close>.
\<close>

fun all_indices :: "nat list \<Rightarrow> nat list list" where
  "all_indices [] = [[]]"
| "all_indices (d # ds) = concat (map (\<lambda>i. map ((#) i) (all_indices ds)) [0..<d])"

definition index_in_range :: "nat \<Rightarrow> int tensor \<Rightarrow> bool" where
  "index_in_range n t =
     list_all (\<lambda>idx. - int n \<le> el t idx \<and> el t idx < int n) (all_indices (shape t))"

definition gather_ok :: "nat list \<Rightarrow> int tensor \<Rightarrow> int tensor \<Rightarrow> int tensor \<Rightarrow> bool" where
  "gather_ok shp indices u v =
     (4 \<le> length shp \<and>
      (case bshape (shape indices) (shape u) of None \<Rightarrow> False
       | Some s \<Rightarrow> bshape s (shape v) \<noteq> None) \<and>
      index_in_range (shp ! 0) indices \<and> index_in_range (shp ! 2) u \<and>
      index_in_range (shp ! 3) v)"

definition model_kwargs ::
  "render_layer \<Rightarrow> nat \<Rightarrow> nat \<Rightarrow> real tensor \<Rightarrow> real tensor \<Rightarrow> real tensor \<Rightarrow> real tensor
     \<Rightarrow> real tensor \<Rightarrow> real tensor \<Rightarrow> int tensor \<Rightarrow> error + unit" where
  "model_kwargs L irow icol albedo rough metal normal vpos_clip ssrt_direction ssrt_uv =
     (case (if spp L = - 1 then Some 1 else if spp L < 0 then None else Some (nat (spp L))) of
        None \<Rightarrow> Inl RuntimeError
      | Some k \<Rightarrow>
          ebind (expand [1, k, 3, irow, icol] (unsqueeze 1 vpos_clip)) (\<lambda>p1.
          ebind (permute [0, 1, 3, 4, 2] p1) (\<lambda>p2.
          ebind (reshape_infer [] [3] p2) (\<lambda>positions.
          if shape ssrt_uv ! 1 < 2 then Inl IndexError
          else
            let u = select 1 0 ssrt_uv;
                v = select 1 1 ssrt_uv;
                indices = \<lparr>shape = [shape ssrt_direction ! 0], el = (\<lambda>idx. 0)\<rparr>
            in if \<not> gather_ok (shape normal) indices u v then Inl IndexError
               else if \<not> gather_ok (shape rough) indices u v then Inl IndexError
               else
                 ebind (bop (\<lambda>a m. a * (1 - m)) albedo metal) (\<lambda>Kd.
                 ebind (bop (\<lambda>a m. 4 / 100 + m * (a - 4 / 100)) albedo metal) (\<lambda>Ks.
                 if \<not> gather_ok (shape Kd) indices u v then Inl IndexError
                 else if \<not> gather_ok (shape Ks) indices u v then Inl IndexError
                 else Inr ()))))))"

text \<open>The block as a whole. Its results that \<^verbatim>\<open>forward\<close> goes on with are the reduced
  \<^verbatim>\<open>direction\<close> and the clipped \<^verbatim>\<open>vpos\<close> (line 215); the traced directions, the hit
  coordinates and the uncertainty are returned with them.\<close>

definition ssrt_block ::
  "render_layer \<Rightarrow> tracer \<Rightarrow> int \<times> int \<times> int \<times> int \<Rightarrow> nat \<Rightarrow> nat \<Rightarrow> real tensor
     \<Rightarrow> real tensor \<Rightarrow> real tensor \<Rightarrow> real tensor \<Rightarrow> real tensor \<Rightarrow> real tensor
     \<Rightarrow> error + (real tensor \<times> real tensor \<times> real tensor \<times> int tensor \<times> real tensor)" where
  "ssrt_block L T w irow icol albedo rough metal normal vpos direction =
     (let direction1 = last_sample direction in
      ebind (reshape_infer [] [3] direction1) (\<lambda>ssrt_direction.
      ebind (T L vpos normal w ssrt_direction) (\<lambda>(uv, hit, dz).
      ebind (ssrt_post uv hit dz) (\<lambda>(ssrt_uv, uncertainty).
      if length (shape vpos) < 4 then Inl IndexError
      else
        let vpos_clip = clip4 w vpos in
        ebind (model_kwargs L irow icol albedo rough metal normal vpos_clip ssrt_direction ssrt_uv)
          (\<lambda>x. Inr (direction1, vpos_clip, ssrt_direction, ssrt_uv, uncertainty))))))"

text \<open>
  The integrator, lines 232-251.
  \<^verbatim>\<open>
  light = lighting_model(direction=direction)
  pdf_emitter = lighting_model.pdf_direction(vpos=vpos.unsqueeze(1), direction=wo_emitter)
  pdf_emitter = torch.clamp(pdf_emitter, min=0.001)
  ndl = torch.clamp(wo[:, :, 2:, ...], min=0)
  light = light.view(1, lighting_model.spp, irow, icol, 3)
  light = light.permute(0, 1, 4, 2, 3)
  light = light * ndl / pdf_emitter
  colorDiffuse = torch.mean(brdfDiffuse * light, dim=1)
  if self.use_specular:
      colorSpec = torch.mean(brdfSpec * light, dim=1)
  else:
      colorSpec = torch.zeros_like(colorDiffuse)
  shading = torch.mean(light, dim=1)
  \<close>
  The view of the radiance takes it as contiguous. The results are the radiance on the
  sample grid, the floored \<^verbatim>\<open>pdf_emitter\<close>, \<^verbatim>\<open>ndl\<close>, the weighted light, and the three
  outputs \<^verbatim>\<open>colorDiffuse\<close>, \<^verbatim>\<open>colorSpec\<close> and \<^verbatim>\<open>shading\<close>.
\<close>

definition integrator ::
  "render_layer \<Rightarrow> lighting_model \<Rightarrow> real tensor \<Rightarrow> real tensor \<Rightarrow> real tensor \<Rightarrow> real tensor
     \<Rightarrow> real tensor \<Rightarrow> real tensor \<Rightarrow> nat \<Rightarrow> nat
     \<Rightarrow> error + (real tensor \<times> real tensor \<times> real tensor \<times> real tensor \<times> real tensor
                  \<times> real tensor \<times> real tensor)" where
  "integrator L lm direction vpos wo_emitter wo brdfDiffuse brdfSpec irow icol =
     ebind (radiance lm direction) (\<lambda>light0.
     if length (shape vpos) < 1 then Inl IndexError
     else
       ebind (pdf_direction lm (unsqueeze 1 vpos) wo_emitter) (\<lambda>pdf0.
       let pdf_emitter = tmap (\<lambda>p. max p (1 / 1000)) pdf0;
           ndl = tmap (\<lambda>z. max z 0) (slice 2 (Some 2) None wo)
       in
       ebind (reshape [1, lm_spp lm, irow, icol, 3] light0) (\<lambda>light1.
       ebind (permute [0, 1, 4, 2, 3] light1) (\<lambda>light2.
       ebind (bop (*) light2 ndl) (\<lambda>light3.
       ebind (bop (/) light3 pdf_emitter) (\<lambda>light.
       ebind (bop (*) brdfDiffuse light) (\<lambda>pd.
       let colorDiffuse = mean1 pd in
       ebind (if use_specular L then ebind (bop (*) brdfSpec light) (\<lambda>ps. Inr (mean1 ps))
              else Inr (tmap (\<lambda>x. 0) colorDiffuse)) (\<lambda>colorSpec.
         Inr (light2, pdf_emitter, ndl, light, colorDiffuse, colorSpec, mean1 light)))))))))"

section \<open>\<^verbatim>\<open>forward\<close>\<close>

text \<open>
  The values that one call of \<^verbatim>\<open>forward\<close> computes, under the names of the source:
  the locals that the properties below speak about and the four results
  \<^verbatim>\<open>colorDiffuse, colorSpec, wi_mask, shading\<close>. \<open>t_light\<close> is the radiance on the sample
  grid (after line 240) and \<open>t_light_weighted\<close> is \<^verbatim>\<open>light\<close> after line 242;
  \<open>t_direction\<close> and \<open>t_vpos\<close> are the values that the integrator receives.
\<close>

record trace =
  t_window :: "int \<times> int \<times> int \<times> int"
  t_irow :: nat
  t_icol :: nat
  t_wi :: "real tensor"
  t_wo_emitter :: "real tensor"
  t_wo :: "real tensor"
  t_direction :: "real tensor"
  t_vpos :: "real tensor"
  t_pdfs :: "real tensor"
  t_pdfs_brdf :: "real tensor"
  t_eval_diff :: "real tensor"
  t_eval_spec :: "real tensor"
  t_brdfDiffuse :: "real tensor"
  t_brdfSpec :: "real tensor"
  t_light :: "real tensor"
  t_pdf_emitter :: "real tensor"
  t_ndl :: "real tensor"
  t_light_weighted :: "real tensor"
  t_colorDiffuse :: "real tensor"
  t_colorSpec :: "real tensor"
  t_wi_mask :: "real tensor"
  t_shading :: "real tensor"

text \<open>
  \<^verbatim>\<open>forward(lighting_model, albedo, rough, metal, normal, vpos)\<close>, lines 62-256, with the
  BRDF kernels \<open>K\<close> and the tracer \<open>T\<close>. The unpacking of \<^verbatim>\<open>albedo.shape\<close> needs four axes;
  the two assertions (lines 78-79) read the shape of \<^verbatim>\<open>albedo\<close> only.
\<close>

definition forward_trace ::
  "render_layer \<Rightarrow> lighting_model \<Rightarrow> brdf_kernels \<Rightarrow> tracer \<Rightarrow> real tensor \<Rightarrow> real tensor
     \<Rightarrow> real tensor \<Rightarrow> real tensor \<Rightarrow> real tensor \<Rightarrow> error + trace" where
  "forward_trace L lm K T albedo rough metal normal vpos =
     (case shape albedo of
        [bn, c, row, col] \<Rightarrow>
          if bn \<noteq> 1 then Inl AssertionError
          else if \<not> (int row = imHeight L \<and> int col = imWidth L) then Inl AssertionError
          else
            let w = clip_window (int row) (int col) in
            ebind (local_axes normal) (\<lambda>(cx, cy, cz, fx, fy, fz).
            ebind (view_direction L fx fy fz) (\<lambda>(wi0, wi_mask0).
            let wi = clip5 w wi0;
                wi_mask = clip4 w wi_mask0;
                cx_clip = clip4 w cx;
                cy_clip = clip4 w cy;
                cz_clip = clip4 w cz;
                albedo_clip = clip4 w albedo
            in
            if length (shape metal) < 4 then Inl IndexError
            else if length (shape rough) < 4 then Inl IndexError
            else
              let metal_clip = clip4 w metal;
                  rough_clip = clip4 w rough;
                  irow = shape wi ! 3;
                  icol = shape wi ! 4
              in
              ebind (light_direction L lm fx fy fz normal vpos) (\<lambda>(wo_emitter, wo, direction).
              ebind (brdf_eval L K albedo_clip rough_clip metal_clip wi wo)
                (\<lambda>(pdfs, eval_diff, eval_spec).
              let pdfs_brdf = brdf_density pdfs in
              ebind (brdf_weighted [1, lm_spp lm, 3, irow, icol] eval_diff pdfs_brdf) (\<lambda>brdfDiffuse.
              ebind (brdf_weighted [1, lm_spp lm, 3, irow, icol] eval_spec pdfs_brdf) (\<lambda>brdfSpec.
              ebind (if use_ssrt L
                     then ebind (ssrt_block L T w irow icol albedo rough metal normal vpos direction)
                            (\<lambda>(direction1, vpos_clip, ssrt_direction, ssrt_uv, uncertainty).
                               Inr (direction1, vpos_clip))
                     else Inr (direction, vpos)) (\<lambda>(direction2, vpos2).
              ebind (integrator L lm direction2 vpos2 wo_emitter wo brdfDiffuse brdfSpec irow icol)
                (\<lambda>(light2, pdf_emitter, ndl, light, colorDiffuse, colorSpec, shading).
                Inr \<lparr>t_window = w, t_irow = irow, t_icol = icol, t_wi = wi,
                     t_wo_emitter = wo_emitter, t_wo = wo, t_direction = direction2,
                     t_vpos = vpos2, t_pdfs = pdfs, t_pdfs_brdf = pdfs_brdf,
                     t_eval_diff = eval_diff, t_eval_spec = eval_spec,
                     t_brdfDiffuse = brdfDiffuse, t_brdfSpec = brdfSpec, t_light = light2,
                     t_pdf_emitter = pdf_emitter, t_ndl = ndl, t_light_weighted = light,
                     t_colorDiffuse = colorDiffuse, t_colorSpec = colorSpec,
                     t_wi_mask = wi_mask, t_shading = shading\<rparr>))))))))
      | _ \<Rightarrow> Inl ValueError)"

definition forward ::
  "render_layer \<Rightarrow> lighting_model \<Rightarrow> brdf_kernels \<Rightarrow> tracer \<Rightarrow> real tensor \<Rightarrow> real tensor
     \<Rightarrow> real tensor \<Rightarrow> real tensor \<Rightarrow> real tensor
     \<Rightarrow> error + (real tensor \<times> real tensor \<times> real tensor \<times> real tensor)" where
  "forward L lm K T albedo rough metal normal vpos =
     ebind (forward_trace L lm K T albedo rough metal normal vpos) (\<lambda>t.
       Inr (t_colorDiffuse t, t_colorSpec t, t_wi_mask t, t_shading t))"

section \<open>Reading the estimate\<close>

text \<open>
  \<^verbatim>\<open>torch.mean(t, dim=1)\<close> reads \<open>t\<close> at the index of the result with the sample number
  \<open>s\<close> put in as axis 1.
\<close>

definition sample_index :: "nat \<Rightarrow> nat list \<Rightarrow> nat list" where
  "sample_index s idx = take 1 idx @ [s] @ drop 1 idx"


text \<open>
  The contribution of one sample as the specification words it:
  \<^verbatim>\<open>brdf * (light * max(wo.z, 0) / pdf_emitter) / brdf_density\<close>, with the density of the
  lighting model floored at 0.001.
\<close>

definition spec_sample_term :: "real \<Rightarrow> real \<Rightarrow> real \<Rightarrow> real \<Rightarrow> real \<Rightarrow> real" where
  "spec_sample_term brdf light wo_z pdf_emitter brdf_pdf =
     brdf * (light * max wo_z 0 / max pdf_emitter (1 / 1000)) / brdf_pdf"


text \<open>
  Component \<open>idx ! 2\<close> of a sampled direction in the local frame, lines 128-130: the
  products of the three world components of \<^verbatim>\<open>wo_emitter\<close> with \<^verbatim>\<open>fx\<close>, \<^verbatim>\<open>fy\<close> and
  \<^verbatim>\<open>fz\<close>, read with broadcasting.
\<close>

definition local_component ::
  "real tensor \<Rightarrow> real tensor \<Rightarrow> real tensor \<Rightarrow> real tensor \<Rightarrow> nat list \<Rightarrow> real" where
  "local_component d fx fy fz idx =
     bget (slice 2 (Some 0) (Some 1) d) idx * bget (unsqueeze 1 fx) idx +
     bget (slice 2 (Some 1) (Some 2) d) idx * bget (unsqueeze 1 fy) idx +
     bget (slice 2 (Some 2) (Some 3) d) idx * bget (unsqueeze 1 fz) idx"

text \<open>
  The treatment of a local direction as the specification words it: double-sided folding
  when enabled, the clamp of the local z to the floor \<open>1e-3\<close>, and the renormalisation
  (with the floor \<open>1e-6\<close> of \<^verbatim>\<open>functional.normalize\<close>).
\<close>

definition spec_local_treatment :: "bool \<Rightarrow> real \<times> real \<times> real \<Rightarrow> real \<times> real \<times> real" where
  "spec_local_treatment ds v = (case v of (x, y, z) \<Rightarrow>
     let z1 = (if ds then \<bar>z\<bar> else z);
         z2 = max z1 (1 / 1000);
         n = max (sqrt (x\<^sup>2 + y\<^sup>2 + z2\<^sup>2)) (1 / 10 ^ 6)
     in (x / n, y / n, z2 / n))"







section \<open>A test scene\<close>

text \<open>
  A \<open>2 \<times> 2\<close> image of a flat surface that faces the camera, after the first end-to-end
  scenario of the specification: constant albedo \<open>0.5\<close>, roughness \<open>0.5\<close>, metalness \<open>0\<close>,
  normal \<open>(0, 0, 1)\<close>, and a lighting model with one sample per pixel, constant radiance 1
  and density 1 that samples the direction \<open>d\<close> at every pixel. The kernels are
  Lambertian: \<open>albedo / \<pi>\<close> for the diffuse term and nothing for the specular term.
  The tracer of the scene reports a miss for every ray.
\<close>

definition const_grid :: "nat list \<Rightarrow> nat \<Rightarrow> real \<times> real \<times> real \<Rightarrow> real tensor" where
  "const_grid shp ax d = (case d of (d0, d1, d2) \<Rightarrow>
     \<lparr>shape = shp, el = (\<lambda>idx. if idx ! ax = 0 then d0 else if idx ! ax = 1 then d1 else d2)\<rparr>)"

definition scene_normal :: "real tensor" where
  "scene_normal = const_grid [1, 3, 2, 2] 1 (0, 0, 1)"

definition scene_albedo :: "real tensor" where
  "scene_albedo = const_grid [1, 3, 2, 2] 1 (1 / 2, 1 / 2, 1 / 2)"

definition scene_rough :: "real tensor" where
  "scene_rough = \<lparr>shape = [1, 1, 2, 2], el = (\<lambda>idx. 1 / 2)\<rparr>"

definition scene_metal :: "real tensor" where
  "scene_metal = \<lparr>shape = [1, 1, 2, 2], el = (\<lambda>idx. 0)\<rparr>"

definition scene_vpos :: "real tensor" where
  "scene_vpos = const_grid [1, 3, 2, 2] 1 (0, 0, - 1)"

definition scene_light :: "nat \<Rightarrow> real \<times> real \<times> real \<Rightarrow> lighting_model" where
  "scene_light n d =
     \<lparr>lm_spp = n,
      sample_direction = (\<lambda>vpos normal. Inr (const_grid [1, n, 3, 2, 2] 2 d)),
      pdf_direction = (\<lambda>vpos direction. Inr \<lparr>shape = [1, n, 1, 2, 2], el = (\<lambda>idx. 1)\<rparr>),
      radiance = (\<lambda>direction. Inr (tmap (\<lambda>x. 1) direction))\<rparr>"

definition scene_brdf :: brdf_kernels where
  "scene_brdf =
     \<lparr>pdf_ggx = (\<lambda>albedo rough metal wi wo. Inr \<lparr>shape = [1, 1, 2, 2], el = (\<lambda>idx. 1 / 2)\<rparr>),
      eval_ggx = (\<lambda>albedo rough metal wi wo.
         Inr (\<lparr>shape = [1, 1, 3, 2, 2], el = (\<lambda>idx. bget albedo idx / pi)\<rparr>,
              \<lparr>shape = [1, 1, 3, 2, 2], el = (\<lambda>idx. 1 / 8)\<rparr>,
              \<lparr>shape = [1, 1, 1, 2, 2], el = (\<lambda>idx. 1)\<rparr>)),
      pdf_diffuse = (\<lambda>wi wo. Inr \<lparr>shape = [1, 1, 1, 2, 2], el = (\<lambda>idx. 1 / 2)\<rparr>),
      eval_diffuse = (\<lambda>albedo wi wo.
         Inr (\<lparr>shape = [1, 1, 3, 2, 2], el = (\<lambda>idx. bget albedo idx / pi)\<rparr>,
              \<lparr>shape = [1, 1, 3, 2, 2], el = (\<lambda>idx. 0)\<rparr>,
              \<lparr>shape = [1, 1, 1, 2, 2], el = (\<lambda>idx. 1)\<rparr>)),
      pdf_disney = (\<lambda>rough metal wi wo. Inr \<lparr>shape = [1, 1, 2, 2], el = (\<lambda>idx. 1 / 2)\<rparr>),
      eval_disney = (\<lambda>albedo rough metal wi wo.
         Inr (\<lparr>shape = [1, 1, 3, 2, 2], el = (\<lambda>idx. bget albedo idx / pi)\<rparr>,
              \<lparr>shape = [1, 1, 3, 2, 2], el = (\<lambda>idx. 1 / 8)\<rparr>,
              \<lparr>shape = [1, 1, 1, 2, 2], el = (\<lambda>idx. 1)\<rparr>))\<rparr>"

definition scene_tracer :: tracer where
  "scene_tracer = (\<lambda>L vpos normal w ssrt_direction.
     Inr (\<lparr>shape = [shape ssrt_direction ! 0, 2], el = (\<lambda>idx. 0)\<rparr>,
          \<lparr>shape = [shape ssrt_direction ! 0], el = (\<lambda>idx. False)\<rparr>,
          \<lparr>shape = [shape ssrt_direction ! 0], el = (\<lambda>idx. 0)\<rparr>))"

text \<open>
  Inputs of the scene with other shapes: a roughness map of batch size 2 on a \<open>7 \<times> 9\<close>
  grid, an albedo of batch size 2, and an albedo without a batch axis.
\<close>

definition scene_rough_mismatched :: "real tensor" where
  "scene_rough_mismatched = \<lparr>shape = [2, 1, 7, 9], el = (\<lambda>idx. 1 / 2)\<rparr>"

definition scene_albedo_batch2 :: "real tensor" where
  "scene_albedo_batch2 = const_grid [2, 3, 2, 2] 1 (1 / 2, 1 / 2, 1 / 2)"

definition scene_albedo_rank3 :: "real tensor" where
  "scene_albedo_rank3 = const_grid [3, 2, 2] 0 (1 / 2, 1 / 2, 1 / 2)"

definition scene_layer :: "string \<Rightarrow> bool \<Rightarrow> bool \<Rightarrow> render_layer" where
  "scene_layer kind ssrt specular = projr (init 2 2 85 [0, 0, 0] kind 1 True ssrt specular)"

section \<open>A second test scene\<close>

text \<open>
  A \<open>2 \<times> 4\<close> image (two rows, four columns) of the same flat surface, rendered
  single-sided with three samples per pixel. The lighting model samples the directions
  \<open>(0, 0, 1)\<close>, \<open>(0, 3/5, 4/5)\<close> and \<open>(0, 0, -1)\<close> at every pixel, with the densities
  \<open>1/2\<close>, \<open>1/2000\<close> and \<open>1/2\<close>, and answers every query with the radiances 1, 2 and 3 of
  its three samples at each of the eight pixels. The kernels return \<open>albedo / \<pi>\<close> for the
  diffuse term and \<open>1/8\<close> for the specular term. The tracer reports a hit with
  discrepancy \<open>1/10\<close> at pixel \<open>(0, 0)\<close> for every ray with an even number, and a miss
  for the others.
\<close>

definition wide_normal :: "real tensor" where
  "wide_normal = const_grid [1, 3, 2, 4] 1 (0, 0, 1)"

definition wide_albedo :: "real tensor" where
  "wide_albedo = const_grid [1, 3, 2, 4] 1 (1 / 2, 1 / 2, 1 / 2)"

definition wide_rough :: "real tensor" where
  "wide_rough = \<lparr>shape = [1, 1, 2, 4], el = (\<lambda>idx. 1 / 2)\<rparr>"

definition wide_metal :: "real tensor" where
  "wide_metal = \<lparr>shape = [1, 1, 2, 4], el = (\<lambda>idx. 0)\<rparr>"

definition wide_vpos :: "real tensor" where
  "wide_vpos = const_grid [1, 3, 2, 4] 1 (0, 0, - 1)"

definition wide_samples :: "real tensor" where
  "wide_samples =
     \<lparr>shape = [1, 3, 3, 2, 4],
      el = (\<lambda>idx. if idx ! 2 = 0 then 0
                  else if idx ! 2 = 1 then (if idx ! 1 = 1 then 3 / 5 else 0)
                  else (if idx ! 1 = 0 then 1 else if idx ! 1 = 1 then 4 / 5 else - 1))\<rparr>"

definition wide_light :: lighting_model where
  "wide_light =
     \<lparr>lm_spp = 3,
      sample_direction = (\<lambda>vpos normal. Inr wide_samples),
      pdf_direction = (\<lambda>vpos direction.
         Inr \<lparr>shape = [1, 3, 1, 2, 4], el = (\<lambda>idx. if idx ! 1 = 1 then 1 / 2000 else 1 / 2)\<rparr>),
      radiance = (\<lambda>direction. Inr \<lparr>shape = [3, 8, 3], el = (\<lambda>idx. 1 + real (idx ! 0))\<rparr>)\<rparr>"

definition wide_brdf :: brdf_kernels where
  "wide_brdf =
     \<lparr>pdf_ggx = (\<lambda>albedo rough metal wi wo. Inr \<lparr>shape = [1, 3, 2, 4], el = (\<lambda>idx. 1 / 2)\<rparr>),
      eval_ggx = (\<lambda>albedo rough metal wi wo.
         Inr (\<lparr>shape = [1, 1, 3, 2, 4], el = (\<lambda>idx. bget albedo idx / pi)\<rparr>,
              \<lparr>shape = [1, 3, 3, 2, 4], el = (\<lambda>idx. 1 / 8)\<rparr>,
              \<lparr>shape = [1, 3, 1, 2, 4], el = (\<lambda>idx. 1)\<rparr>)),
      pdf_diffuse = (\<lambda>wi wo. Inr \<lparr>shape = [1, 3, 1, 2, 4], el = (\<lambda>idx. 1 / 2)\<rparr>),
      eval_diffuse = (\<lambda>albedo wi wo.
         Inr (\<lparr>shape = [1, 1, 3, 2, 4], el = (\<lambda>idx. bget albedo idx / pi)\<rparr>,
              \<lparr>shape = [1, 3, 3, 2, 4], el = (\<lambda>idx. 0)\<rparr>,
              \<lparr>shape = [1, 3, 1, 2, 4], el = (\<lambda>idx. 1)\<rparr>)),
      pdf_disney = (\<lambda>rough metal wi wo. Inr \<lparr>shape = [1, 3, 2, 4], el = (\<lambda>idx. 1 / 2)\<rparr>),
      eval_disney = (\<lambda>albedo rough metal wi wo.
         Inr (\<lparr>shape = [1, 1, 3, 2, 4], el = (\<lambda>idx. bget albedo idx / pi)\<rparr>,
              \<lparr>shape = [1, 3, 3, 2, 4], el = (\<lambda>idx. 1 / 8)\<rparr>,
              \<lparr>shape = [1, 3, 1, 2, 4], el = (\<lambda>idx. 1)\<rparr>))\<rparr>"

definition wide_tracer :: tracer where
  "wide_tracer = (\<lambda>L vpos normal w ssrt_direction.
     Inr (\<lparr>shape = [shape ssrt_direction ! 0, 2], el = (\<lambda>idx. 0)\<rparr>,
          \<lparr>shape = [shape ssrt_direction ! 0], el = (\<lambda>idx. even (idx ! 0))\<rparr>,
          \<lparr>shape = [shape ssrt_direction ! 0], el = (\<lambda>idx. 1 / 10)\<rparr>))"

definition wide_layer :: "string \<Rightarrow> bool \<Rightarrow> bool \<Rightarrow> render_layer" where
  "wide_layer kind ssrt specular = projr (init 4 2 85 [0, 0, 0] kind 1 False ssrt specular)"

section \<open>Properties of the clipping window\<close>

lemma py_bound_nonneg: "0 \<le> k \<Longrightarrow> py_bound n k = min (nat k) n"
  by (simp add: py_bound_def)

lemma clip_window_int:
  "clip_window (int row) (int col) =
     (0, int (row div 2 + max (col div 2) (row div 2)), 0,
      int (col div 2 + max (col div 2) (row div 2)))"
proof -
  have a: "int row div 2 = int (row div 2)" "int col div 2 = int (col div 2)"
    by (simp_all add: zdiv_int)
  show ?thesis
    unfolding clip_window_def Let_def a by (simp add: max_def)
qed

lemma clip_extent_eq:
  "clip_extent row col =
     (0, min (row div 2 + max (col div 2) (row div 2)) row, 0,
      min (col div 2 + max (col div 2) (row div 2)) col)"
  unfolding clip_extent_def clip_window_int
  by (simp add: py_bound_nonneg del: of_nat_add of_nat_max)

text \<open>
  Claim C2, as stated: the grids are clipped to the largest centred square that fits in the
  image, so that in a non-square image the pixels outside that square are left out.
  It fails on a \<open>4 \<times> 8\<close> image: the radius is the larger half extent, the window is
  rows \<open>0..4\<close> and columns \<open>0..8\<close>, and pixel \<open>(0, 0)\<close>, which lies outside the central
  \<open>4 \<times> 4\<close> square (columns \<open>2..6\<close>), is kept.
\<close>

theorem clip_window_not_central_square:
  "clip_extent 4 8 = (0, 4, 0, 8) \<and> spec_central_square 4 8 = (0, 4, 2, 6) \<and>
   in_clip_window 4 8 0 0 \<and> \<not> in_spec_central_square 4 8 0 0"
  by (simp add: in_clip_window_def clip_extent_eq in_spec_central_square_def
      spec_central_square_def Let_def)

section \<open>Properties of the construction\<close>

text \<open>
  Claim C4, as stated: a construction with a non-positive width or height, with zero samples
  per pixel or with an unknown BRDF kind fails. It does not: zero samples, an unknown BRDF
  kind and a height of zero are all accepted.
\<close>

theorem init_accepts_invalid_parameters:
  "\<not> isl (init 320 240 85 [0, 0, 0] ''ggx'' 0 True False False) \<and>
   \<not> isl (init 320 240 85 [0, 0, 0] ''lambert'' 1 True False False) \<and>
   \<not> isl (init 320 0 85 [0, 0, 0] ''ggx'' 1 True False False)"
  by (simp add: init_def Let_def)

text \<open>
  Claim C4, amended: the construction validates nothing itself. With a camera position of
  three coordinates it fails exactly when the width is zero (the division of the aspect
  ratio raises \<^verbatim>\<open>ZeroDivisionError\<close>) or when the width or the height is negative
  (\<^verbatim>\<open>np.linspace\<close> raises \<^verbatim>\<open>ValueError\<close>), in both cases before a buffer is registered;
  otherwise it returns a layer that stores the given sample count and BRDF kind unchanged,
  whatever they are.
\<close>

theorem init_failures:
  assumes "length cam = 3"
  shows "(W = 0 \<longrightarrow> init W H f cam bt s ds us usp = Inl ZeroDivisionError) \<and>
         (W \<noteq> 0 \<and> (W < 0 \<or> H < 0) \<longrightarrow> init W H f cam bt s ds us usp = Inl ValueError) \<and>
         (0 < W \<and> 0 \<le> H \<longrightarrow>
            (\<exists>L. init W H f cam bt s ds us usp = Inr L \<and> spp L = s \<and> brdf_type L = bt \<and>
                  imWidth L = W \<and> imHeight L = H))"
  using assms by (auto simp: init_def Let_def)

theorem init_failures_witness:
  "init 0 240 85 [0, 0, 0] ''ggx'' 1 True False False = Inl ZeroDivisionError \<and>
   init (- 1) 240 85 [0, 0, 0] ''ggx'' 1 True False False = Inl ValueError \<and>
   (\<exists>L. init 320 240 85 [0, 0, 0] ''nonsense'' 0 True False False = Inr L \<and> spp L = 0 \<and>
      brdf_type L = ''nonsense'' \<and> imWidth L = 320 \<and> imHeight L = 240)"
  using init_failures[of "[0, 0, 0]" 0 240 85 "''ggx''" 1 True False False]
    init_failures[of "[0, 0, 0]" "- 1" 240 85 "''ggx''" 1 True False False]
    init_failures[of "[0, 0, 0]" 320 240 85 "''nonsense''" 0 True False False]
  by simp

section \<open>Properties of the orthonormal frame\<close>

lemma frame_algebra:
  fixes x y z s a :: real
  assumes u: "x * x + y * y + z * z = 1" and s: "s * s = 1" and a: "a * (s + z) = - 1"
  shows "dot (1 + s * x * x * a, s * (x * y * a), - s * x)
             (1 + s * x * x * a, s * (x * y * a), - s * x) = 1"
    and "dot (x * y * a, s + y * y * a, - y) (x * y * a, s + y * y * a, - y) = 1"
    and "dot (1 + s * x * x * a, s * (x * y * a), - s * x) (x * y * a, s + y * y * a, - y) = 0"
    and "dot (1 + s * x * x * a, s * (x * y * a), - s * x) (x, y, z) = 0"
    and "dot (x * y * a, s + y * y * a, - y) (x, y, z) = 0"
    and "cross (1 + s * x * x * a, s * (x * y * a), - s * x) (x * y * a, s + y * y * a, - y)
           = (x, y, z)"
  using u s a by (simp_all, algebra+)

lemma sum3: "(\<Sum>c<(3::nat). f c) = f 0 + f 1 + (f 2 :: real)"
  by (simp add: eval_nat_numeral)

lemma idx_split: "2 \<le> length (idx :: nat list) \<Longrightarrow> \<exists>i0 i1 r. idx = i0 # i1 # r"
  by (cases idx; cases "tl idx") auto

lemma create_frame_at:
  assumes "2 \<le> length (shape n)" "shape n ! 1 = 3" "2 \<le> length idx"
  shows "\<exists>x y z. create_frame n eps = Inr (x, y, z) \<and>
           (vec_at x idx, vec_at y idx, vec_at z idx) = frame_of (vec_at n idx) eps"
proof -
  from assms(3) obtain i0 i1 r where i: "idx = i0 # i1 # r"
    using idx_split by blast
  show ?thesis
    using assms(1,2) unfolding i
    by (simp add: create_frame_def Let_def vec_at_def frame_of_def stack1_def select_def tmap_def
      normalize_def sum3 frame_denominator_def)
qed

lemma frame_at_eq:
  assumes "2 \<le> length (shape n)" "shape n ! 1 = 3" "2 \<le> length idx"
  shows "frame_at n eps idx = Inr (frame_of (vec_at n idx) eps)"
  using create_frame_at[OF assms, of eps] unfolding frame_at_def by auto

lemma frame_denominator_ge: "1 \<le> \<bar>frame_denominator z\<bar>"
  by (simp add: frame_denominator_def)

lemma frame_of_orthonormal:
  assumes e: "0 < eps" and N: "eps \<le> sqrt (n0\<^sup>2 + n1\<^sup>2 + n2\<^sup>2)"
  shows "orthonormal_rh (frame_of (n0, n1, n2) eps)"
proof -
  define N where "N = sqrt (n0\<^sup>2 + n1\<^sup>2 + n2\<^sup>2)"
  define x where "x = n0 / N"
  define y where "y = n1 / N"
  define z where "z = n2 / N"
  define s :: real where "s = (if z \<ge> 0 then 1 else - 1)"
  define a where "a = - 1 / (s + z)"
  have Npos: "0 < N" using e N unfolding N_def by linarith
  have mx: "max N eps = N" using N unfolding N_def by simp
  have N2: "N * N = n0\<^sup>2 + n1\<^sup>2 + n2\<^sup>2"
    unfolding N_def by (simp add: power2_eq_square[symmetric])
  have u: "x * x + y * y + z * z = 1"
  proof -
    have "x * x + y * y + z * z = (n0\<^sup>2 + n1\<^sup>2 + n2\<^sup>2) / (N * N)"
      unfolding x_def y_def z_def by (simp add: power2_eq_square add_divide_distrib)
    also have "\<dots> = 1" using Npos by (simp add: N2[symmetric])
    finally show ?thesis .
  qed
  have s: "s * s = 1" unfolding s_def by simp
  have d: "s + z \<noteq> 0"
    using frame_denominator_ge[of z] unfolding frame_denominator_def s_def by auto
  have a: "a * (s + z) = - 1" unfolding a_def using d by simp
  have F: "frame_of (n0, n1, n2) eps =
     ((1 + s * x * x * a, s * (x * y * a), - s * x), (x * y * a, s + y * y * a, - y), (x, y, z))"
    unfolding frame_of_def frame_denominator_def Let_def prod.case N_def[symmetric] mx
      x_def[symmetric] y_def[symmetric] z_def[symmetric] s_def[symmetric] a_def[symmetric] ..
  show ?thesis
    unfolding F orthonormal_rh_def prod.case
    using frame_algebra[OF u s a] u by simp
qed

text \<open>
  Claim C5, as stated: for every input normal the three returned vectors are orthonormal
  and right-handed. It fails for a normal shorter than \<open>eps\<close>: the zero normal stays the
  zero vector under the floored normalisation, and the frame is \<open>(1,0,0), (0,1,0), (0,0,0)\<close>.
\<close>

theorem create_frame_zero_normal:
  "frame_at (const_normal (0, 0, 0)) (1 / 10 ^ 6) [0, 0, 0, 0]
     = Inr ((1, 0, 0), (0, 1, 0), (0, 0, 0)) \<and>
   \<not> orthonormal_rh ((1, 0, 0), (0, 1, 0), (0, 0, 0))"
  by (simp add: frame_at_eq const_normal_def vec_at_def frame_of_def orthonormal_rh_def Let_def
      frame_denominator_def)

text \<open>
  Claim C5, amended: for every three-channel input and every position where the input
  normal has length at least \<open>eps > 0\<close>, \<open>create_frame\<close> returns three mutually orthogonal
  unit vectors with \<open>x \<times> y = z\<close> (exactly, in real arithmetic), the poles \<open>(0,0,1)\<close> and
  \<open>(0,0,-1)\<close> included; the sign of a zero z-component counts as \<open>+1\<close>, and the denominator
  \<open>sgn + z\<close> has magnitude at least 1.
\<close>

theorem create_frame_orthonormal:
  assumes "2 \<le> length (shape n)" and "shape n ! 1 = 3" and "2 \<le> length idx"
    and "0 < eps" and "eps \<le> sqrt (dot (vec_at n idx) (vec_at n idx))"
  shows "\<exists>F. frame_at n eps idx = Inr F \<and> orthonormal_rh F \<and>
           (case F of (x, y, (z0, z1, z2)) \<Rightarrow> 1 \<le> \<bar>frame_denominator z2\<bar>)"
proof -
  obtain n0 n1 n2 where v: "vec_at n idx = (n0, n1, n2)"
    by (cases "vec_at n idx") auto
  have N: "eps \<le> sqrt (n0\<^sup>2 + n1\<^sup>2 + n2\<^sup>2)"
    using assms(5) unfolding v by (simp add: power2_eq_square)
  have "orthonormal_rh (frame_of (n0, n1, n2) eps)"
    using frame_of_orthonormal[OF assms(4) N] .
  moreover have "frame_at n eps idx = Inr (frame_of (n0, n1, n2) eps)"
    using frame_at_eq[OF assms(1-3)] v by simp
  ultimately show ?thesis
    by (auto simp: frame_denominator_ge split: prod.splits)
qed

theorem create_frame_orthonormal_witness:
  "frame_at (const_normal (0, 0, - 1)) (1 / 10 ^ 6) [0, 0, 0, 0]
     = Inr ((1, 0, 0), (0, - 1, 0), (0, 0, - 1)) \<and>
   orthonormal_rh ((1, 0, 0), (0, - 1, 0), (0, 0, - 1))"
proof -
  have "\<exists>F. frame_at (const_normal (0, 0, - 1)) (1 / 10 ^ 6) [0, 0, 0, 0] = Inr F \<and>
          orthonormal_rh F \<and>
          (case F of (x, y, (z0, z1, z2)) \<Rightarrow> 1 \<le> \<bar>frame_denominator z2\<bar>)"
    by (rule create_frame_orthonormal) (simp_all add: const_normal_def vec_at_def)
  moreover have "frame_at (const_normal (0, 0, - 1)) (1 / 10 ^ 6) [0, 0, 0, 0]
      = Inr ((1, 0, 0), (0, - 1, 0), (0, 0, - 1))"
    by (simp add: frame_at_eq const_normal_def vec_at_def frame_of_def Let_def
        frame_denominator_def)
  ultimately show ?thesis by auto
qed

lemma create_frame_north_pole:
  "frame_at (const_normal (0, 0, 1)) (1 / 10 ^ 6) [0, 0, 0, 0]
     = Inr ((1, 0, 0), (0, 1, 0), (0, 0, 1))"
  by (simp add: frame_at_eq const_normal_def vec_at_def frame_of_def Let_def
      frame_denominator_def)

section \<open>Tensor lemmas\<close>

lemma ebind_Inr [simp]: "ebind (Inr x) f = f x"
  by (simp add: ebind_def)

lemma ebind_Inl [simp]: "ebind (Inl e) f = Inl e"
  by (simp add: ebind_def)

lemma ebind_eq_Inr: "ebind m f = Inr y \<longleftrightarrow> (\<exists>x. m = Inr x \<and> f x = Inr y)"
  by (cases m) auto

lemma shape_tmap [simp]: "shape (tmap f t) = shape t"
  by (simp add: tmap_def)

lemma el_tmap [simp]: "el (tmap f t) idx = f (el t idx)"
  by (simp add: tmap_def)

lemma shape_bmap [simp]: "shape (bmap f s a b) = s"
  by (simp add: bmap_def)

lemma el_bmap [simp]: "el (bmap f s a b) idx = f (bget a idx) (bget b idx)"
  by (simp add: bmap_def)

lemma shape_expanded [simp]: "shape (expanded sizes t) = sizes"
  by (simp add: expanded_def)

lemma el_expanded [simp]: "el (expanded sizes t) idx = bget t idx"
  by (simp add: expanded_def)

lemma shape_permuted [simp]: "shape (permuted perm t) = map (\<lambda>k. shape t ! k) perm"
  by (simp add: permuted_def)

lemma el_reshaped: "el (reshaped sizes t) idx = el t (unflat_index (shape t) (flat_index sizes idx))"
  by (simp add: reshaped_def)

lemma shape_reshaped [simp]: "shape (reshaped sizes t) = sizes"
  by (simp add: reshaped_def)

lemma shape_mean1 [simp]: "shape (mean1 t) = take 1 (shape t) @ drop 2 (shape t)"
  by (simp add: mean1_def)

lemma el_mean1:
  "el (mean1 t) idx = (\<Sum>s<shape t ! 1. el t (take 1 idx @ [s] @ drop 1 idx)) / real (shape t ! 1)"
  by (simp add: mean1_def)

lemma shape_map_channel [simp]: "shape (map_channel d k f t) = shape t"
  by (simp add: map_channel_def)

lemma el_map_channel: "el (map_channel d k f t) idx = (if idx ! d = k then f (el t idx) else el t idx)"
  by (simp add: map_channel_def)

lemma shape_normalize [simp]: "shape (normalize eps t) = shape t"
  by (simp add: normalize_def)

lemma shape_unsqueeze [simp]: "shape (unsqueeze d t) = take d (shape t) @ [1] @ drop d (shape t)"
  by (simp add: unsqueeze_def)

lemma bop_eq_Inr: "bop f a b = Inr t \<longleftrightarrow> (\<exists>s. bshape (shape a) (shape b) = Some s \<and> t = bmap f s a b)"
  by (auto simp: bop_def split: option.splits)

lemma expand_eq_Inr: "expand sizes t = Inr r \<longleftrightarrow> expands_to sizes t \<and> r = expanded sizes t"
  by (auto simp: expand_def)

lemma permute_eq_Inr: "permute perm t = Inr r \<longleftrightarrow> length (shape t) = length perm \<and> r = permuted perm t"
  by (auto simp: permute_def)

lemma reshape_eq_Inr: "reshape sizes t = Inr r \<longleftrightarrow> prod_list sizes = numel t \<and> r = reshaped sizes t"
  by (auto simp: reshape_def)

lemma bsh_Nil2 [simp]: "bsh xs [] = Some xs"
  by (cases xs) simp_all

lemma bsh_comm: "bsh xs ys = bsh ys xs"
  by (induction xs ys rule: bsh.induct) auto

lemma bread_idem:
  "map2 (\<lambda>d i. if d = 1 then 0 else i) A (map2 (\<lambda>d i. if d = 1 then 0 else i) A I)
     = map2 (\<lambda>d i. if d = (1::nat) then 0 else i) A (I :: nat list)"
proof (induction A arbitrary: I)
  case Nil
  then show ?case by simp
next
  case (Cons a A)
  then show ?case by (cases I) auto
qed

lemma bshape_comm: "bshape a b = bshape b a"
  by (simp add: bshape_def bsh_comm)

lemma bsh_read:
  "bsh A B = Some S \<Longrightarrow>
     map2 (\<lambda>d i. if d = 1 then 0 else i) A (map2 (\<lambda>d i. if d = 1 then 0 else i) S I)
       = map2 (\<lambda>d i. if d = (1::nat) then 0 else i) A (I :: nat list)"
proof (induction A B arbitrary: S I rule: bsh.induct)
  case (1 ys)
  then show ?case by simp
next
  case (2 x xs)
  then show ?case
    using bread_idem[of "x # xs" I] by simp
next
  case (3 x xs y ys)
  then show ?case
    by (cases I) (auto split: if_splits)
qed

lemma bidx_bidx:
  assumes "bshape A B = Some S"
  shows "bidx A (bidx S idx) = bidx A idx" and "bidx B (bidx S idx) = bidx B idx"
proof -
  from assms obtain R where R: "bsh (rev A) (rev B) = Some R" "S = rev R"
    by (auto simp: bshape_def)
  show "bidx A (bidx S idx) = bidx A idx"
    using bsh_read[OF R(1), of "rev idx"] by (simp add: bidx_def R(2))
  from R(1) have "bsh (rev B) (rev A) = Some R" by (simp add: bsh_comm)
  from bsh_read[OF this, of "rev idx"]
  show "bidx B (bidx S idx) = bidx B idx"
    by (simp add: bidx_def R(2))
qed

lemma bget_bmap:
  "bshape (shape a) (shape b) = Some s \<Longrightarrow> bget (bmap f s a b) idx = f (bget a idx) (bget b idx)"
  by (simp add: bget_def bidx_bidx)

lemma bget_expanded:
  "expands_to sizes t \<Longrightarrow> bget (expanded sizes t) idx = bget t idx"
  using bidx_bidx(1)[of "shape t" sizes sizes idx] by (simp add: bget_def expands_to_def)

lemma bget_tmap [simp]: "bget (tmap f t) idx = f (bget t idx)"
  by (simp add: bget_def)

lemma bshape_expands:
  "expands_to sizes t \<Longrightarrow> bshape sizes (shape t) = Some sizes"
  by (simp add: expands_to_def bshape_comm)

section \<open>What a successful call has computed\<close>

lemma integrator_read:
  assumes "integrator L lm direction vpos wo_emitter wo bd bs irow icol
             = Inr (light2, pdfc, ndl, light, cd, cs, sh)"
  shows "\<exists>light0 pdf0 s3 s4 s5.
      radiance lm direction = Inr light0 \<and>
      pdf_direction lm (unsqueeze 1 vpos) wo_emitter = Inr pdf0 \<and>
      prod_list [1, lm_spp lm, irow, icol, 3] = numel light0 \<and>
      light2 = permuted [0, 1, 4, 2, 3] (reshaped [1, lm_spp lm, irow, icol, 3] light0) \<and>
      pdfc = tmap (\<lambda>p. max p (1 / 1000)) pdf0 \<and>
      ndl = tmap (\<lambda>z. max z 0) (slice 2 (Some 2) None wo) \<and>
      bshape (shape light2) (shape ndl) = Some s3 \<and>
      bshape s3 (shape pdfc) = Some s4 \<and>
      light = bmap (/) s4 (bmap (*) s3 light2 ndl) pdfc \<and>
      bshape (shape bd) s4 = Some s5 \<and>
      cd = mean1 (bmap (*) s5 bd light) \<and>
      (if use_specular L then \<exists>s6. bshape (shape bs) s4 = Some s6 \<and> cs = mean1 (bmap (*) s6 bs light)
       else cs = tmap (\<lambda>x. 0) cd) \<and>
      sh = mean1 light"
proof (cases "use_specular L")
  case True
  with assms show ?thesis
    unfolding integrator_def Let_def
    by (auto simp: ebind_eq_Inr bop_eq_Inr reshape_eq_Inr permute_eq_Inr split: if_split_asm)
next
  case False
  with assms show ?thesis
    unfolding integrator_def Let_def
    by (auto simp: ebind_eq_Inr bop_eq_Inr reshape_eq_Inr permute_eq_Inr split: if_split_asm)
qed

lemma forward_trace_read:
  assumes "forward_trace L lm K T albedo rough metal normal vpos = Inr t"
  shows "\<exists>c row col cx cy cz fx fy fz wi0 wo_emitter wo direction pdfs eval_diff eval_spec bd bs
           light2 pdfc ndl light cd cs sh wm0.
      shape albedo = [1, c, row, col] \<and> int row = imHeight L \<and> int col = imWidth L \<and>
      local_axes normal = Inr (cx, cy, cz, fx, fy, fz) \<and>
      view_direction L fx fy fz = Inr (wi0, wm0) \<and>
      4 \<le> length (shape metal) \<and> 4 \<le> length (shape rough) \<and>
      light_direction L lm fx fy fz normal vpos = Inr (wo_emitter, wo, direction) \<and>
      brdf_eval L K (clip4 (t_window t) albedo) (clip4 (t_window t) rough) (clip4 (t_window t) metal)
        (t_wi t) wo = Inr (pdfs, eval_diff, eval_spec) \<and>
      brdf_weighted [1, lm_spp lm, 3, t_irow t, t_icol t] eval_diff (brdf_density pdfs) = Inr bd \<and>
      brdf_weighted [1, lm_spp lm, 3, t_irow t, t_icol t] eval_spec (brdf_density pdfs) = Inr bs \<and>
      (if use_ssrt L
       then ebind (ssrt_block L T (t_window t) (t_irow t) (t_icol t) albedo rough metal normal vpos direction)
              (\<lambda>(direction1, vpos_clip, ssrt_direction, ssrt_uv, uncertainty). Inr (direction1, vpos_clip))
       else Inr (direction, vpos)) = Inr (t_direction t, t_vpos t) \<and>
      integrator L lm (t_direction t) (t_vpos t) wo_emitter wo bd bs (t_irow t) (t_icol t)
        = Inr (light2, pdfc, ndl, light, cd, cs, sh) \<and>
      t = \<lparr>t_window = clip_window (int row) (int col), t_irow = shape (clip5 (clip_window (int row) (int col)) wi0) ! 3,
           t_icol = shape (clip5 (clip_window (int row) (int col)) wi0) ! 4,
           t_wi = clip5 (clip_window (int row) (int col)) wi0,
           t_wo_emitter = wo_emitter, t_wo = wo, t_direction = t_direction t,
           t_vpos = t_vpos t, t_pdfs = pdfs, t_pdfs_brdf = brdf_density pdfs,
           t_eval_diff = eval_diff, t_eval_spec = eval_spec,
           t_brdfDiffuse = bd, t_brdfSpec = bs, t_light = light2,
           t_pdf_emitter = pdfc, t_ndl = ndl, t_light_weighted = light,
           t_colorDiffuse = cd, t_colorSpec = cs,
           t_wi_mask = clip4 (clip_window (int row) (int col)) wm0, t_shading = sh\<rparr>"
proof (cases "use_ssrt L")
  case True
  with assms show ?thesis
    unfolding forward_trace_def Let_def
    by (auto simp: ebind_eq_Inr split: list.splits if_split_asm)
next
  case False
  with assms show ?thesis
    unfolding forward_trace_def Let_def
    by (auto simp: ebind_eq_Inr split: list.splits if_split_asm)
qed

section \<open>The colour estimate\<close>

lemma bsh_refl: "bsh xs xs = Some xs"
  by (induction xs) auto

lemma bshape_refl: "bshape s s = Some s"
  by (simp add: bshape_def bsh_refl)

lemma brdf_weighted_read:
  assumes "brdf_weighted grid ev p = Inr bd" and "expands_to grid p"
  shows "shape bd = grid \<and> expands_to grid ev \<and> (\<forall>j. bget bd j = bget ev j / bget p j)"
proof -
  from assms(1) obtain s where e: "expands_to grid ev" and s: "bshape grid (shape p) = Some s"
    and bd: "bd = bmap (/) s (expanded grid ev) p"
    unfolding brdf_weighted_def by (auto simp: ebind_eq_Inr expand_eq_Inr bop_eq_Inr)
  from s bshape_expands[OF assms(2)] have sg: "s = grid" by simp
  have "bget bd j = bget ev j / bget p j" for j
    unfolding bd using bget_bmap[of "expanded grid ev" p s "(/)" j] s
    by (simp add: bget_expanded[OF e])
  then show ?thesis using e bd sg by simp
qed

lemma color_read:
  fixes bd light :: "real tensor"
  assumes "shape bd = grid" and "shape light = grid" and "grid = [1, n, 3, r, c]"
  shows "shape (mean1 (bmap (*) grid bd light)) = [1, 3, r, c]"
    and "el (mean1 (bmap (*) grid bd light)) idx
          = (\<Sum>s<n. bget bd (sample_index s idx) * bget light (sample_index s idx)) / real n"
  using assms by (simp_all add: el_mean1 sample_index_def)

text \<open>
  The two colours of a call that returns, as sums over the samples of the terms that the
  specification names. The three premises say that the BRDF density, the density of the
  lighting model and the cosine term have the shapes of their interfaces, so that axis 1 of
  the product is the sample axis.
\<close>

lemma forward_color_formula:
  assumes ft: "forward_trace L lm K T albedo rough metal normal vpos = Inr t"
    and c1: "expands_to [1, lm_spp lm, 3, t_irow t, t_icol t] (t_pdfs_brdf t)"
    and c2: "expands_to [1, lm_spp lm, 3, t_irow t, t_icol t] (t_pdf_emitter t)"
    and c3: "expands_to [1, lm_spp lm, 3, t_irow t, t_icol t] (t_ndl t)"
  shows "forward L lm K T albedo rough metal normal vpos
           = Inr (t_colorDiffuse t, t_colorSpec t, t_wi_mask t, t_shading t) \<and>
    (\<exists>pdf0.
       pdf_direction lm (unsqueeze 1 (t_vpos t)) (t_wo_emitter t) = Inr pdf0 \<and>
       t_pdf_emitter t = tmap (\<lambda>p. max p (1 / 1000)) pdf0 \<and>
       (\<forall>idx. el (t_colorDiffuse t) idx =
          (\<Sum>s<lm_spp lm. spec_sample_term
              (bget (t_eval_diff t) (sample_index s idx))
              (bget (t_light t) (sample_index s idx))
              (bget (slice 2 (Some 2) None (t_wo t)) (sample_index s idx))
              (bget pdf0 (sample_index s idx))
              (bget (t_pdfs_brdf t) (sample_index s idx))) / real (lm_spp lm)) \<and>
       (if use_specular L
        then \<forall>idx. el (t_colorSpec t) idx =
          (\<Sum>s<lm_spp lm. spec_sample_term
              (bget (t_eval_spec t) (sample_index s idx))
              (bget (t_light t) (sample_index s idx))
              (bget (slice 2 (Some 2) None (t_wo t)) (sample_index s idx))
              (bget pdf0 (sample_index s idx))
              (bget (t_pdfs_brdf t) (sample_index s idx))) / real (lm_spp lm)
        else shape (t_colorSpec t) = shape (t_colorDiffuse t) \<and> (\<forall>idx. el (t_colorSpec t) idx = 0)))"
proof -
  define grid where "grid = [1, lm_spp lm, 3, t_irow t, t_icol t]"
  note c = c1[folded grid_def] c2[folded grid_def] c3[folded grid_def]
  from forward_trace_read[OF ft] obtain wo_emitter wo pdfs eval_diff eval_spec bd bs
      light2 pdfc ndl light cd cs sh wm0 w wi1
    where bdw: "brdf_weighted grid eval_diff (brdf_density pdfs) = Inr bd"
      and bsw: "brdf_weighted grid eval_spec (brdf_density pdfs) = Inr bs"
      and ig: "integrator L lm (t_direction t) (t_vpos t) wo_emitter wo bd bs (t_irow t) (t_icol t)
                 = Inr (light2, pdfc, ndl, light, cd, cs, sh)"
      and t: "t = \<lparr>t_window = w, t_irow = t_irow t, t_icol = t_icol t, t_wi = wi1,
           t_wo_emitter = wo_emitter, t_wo = wo, t_direction = t_direction t,
           t_vpos = t_vpos t, t_pdfs = pdfs, t_pdfs_brdf = brdf_density pdfs,
           t_eval_diff = eval_diff, t_eval_spec = eval_spec,
           t_brdfDiffuse = bd, t_brdfSpec = bs, t_light = light2,
           t_pdf_emitter = pdfc, t_ndl = ndl, t_light_weighted = light,
           t_colorDiffuse = cd, t_colorSpec = cs,
           t_wi_mask = wm0, t_shading = sh\<rparr>"
    unfolding grid_def by (metis (no_types, lifting) trace.select_convs)
  have f: "t_colorDiffuse t = cd" "t_colorSpec t = cs" "t_pdfs_brdf t = brdf_density pdfs"
    "t_pdf_emitter t = pdfc" "t_ndl t = ndl" "t_eval_diff t = eval_diff"
    "t_eval_spec t = eval_spec" "t_light t = light2" "t_wo t = wo" "t_wo_emitter t = wo_emitter"
    by (subst t, simp)+
  from integrator_read[OF ig] obtain light0 pdf0 s3 s4 s5
    where pd: "pdf_direction lm (unsqueeze 1 (t_vpos t)) wo_emitter = Inr pdf0"
      and l2: "light2 = permuted [0, 1, 4, 2, 3] (reshaped [1, lm_spp lm, t_irow t, t_icol t, 3] light0)"
      and pc: "pdfc = tmap (\<lambda>p. max p (1 / 1000)) pdf0"
      and nd: "ndl = tmap (\<lambda>z. max z 0) (slice 2 (Some 2) None wo)"
      and s3: "bshape (shape light2) (shape ndl) = Some s3"
      and s4: "bshape s3 (shape pdfc) = Some s4"
      and li: "light = bmap (/) s4 (bmap (*) s3 light2 ndl) pdfc"
      and s5: "bshape (shape bd) s4 = Some s5"
      and cd: "cd = mean1 (bmap (*) s5 bd light)"
      and cs: "if use_specular L
               then \<exists>s6. bshape (shape bs) s4 = Some s6 \<and> cs = mean1 (bmap (*) s6 bs light)
               else cs = tmap (\<lambda>x. 0) cd"
    by blast
  have sl2: "shape light2 = grid" unfolding l2 grid_def by simp
  have g3: "s3 = grid" using s3 bshape_expands[OF c(3)] unfolding sl2 f by simp
  have g4: "s4 = grid" using s4 bshape_expands[OF c(2)] unfolding g3 f by simp
  note rd = brdf_weighted_read[OF bdw c(1)[unfolded f]]
  note rs = brdf_weighted_read[OF bsw c(1)[unfolded f]]
  have g5: "s5 = grid" using s5 rd unfolding g4 by (simp add: bshape_refl)
  have sli: "shape light = grid" unfolding li g4 by simp
  have bl: "bget light j = bget light2 j * max (bget (slice 2 (Some 2) None wo) j) 0
              / max (bget pdf0 j) (1 / 1000)" for j
  proof -
    have "bget light j = bget (bmap (*) s3 light2 ndl) j / bget pdfc j"
      unfolding li using bget_bmap[of "bmap (*) s3 light2 ndl" pdfc s4 "(/)" j] s4 by simp
    also have "bget (bmap (*) s3 light2 ndl) j = bget light2 j * bget ndl j"
      using bget_bmap[OF s3] .
    finally show ?thesis unfolding nd pc by simp
  qed
  have tmd: "bget bd j * bget light j
       = spec_sample_term (bget eval_diff j) (bget light2 j) (bget (slice 2 (Some 2) None wo) j)
           (bget pdf0 j) (bget (brdf_density pdfs) j)" for j
    using rd by (simp add: bl spec_sample_term_def)
  have tms: "bget bs j * bget light j
       = spec_sample_term (bget eval_spec j) (bget light2 j) (bget (slice 2 (Some 2) None wo) j)
           (bget pdf0 j) (bget (brdf_density pdfs) j)" for j
    using rs by (simp add: bl spec_sample_term_def)
  have gr: "grid = [1, lm_spp lm, 3, t_irow t, t_icol t]" by (simp add: grid_def)
  have dshape: "shape cd = [1, 3, t_irow t, t_icol t]"
    unfolding cd g5 by (simp add: gr)
  have diff: "el cd idx = (\<Sum>s<lm_spp lm. spec_sample_term
              (bget eval_diff (sample_index s idx))
              (bget light2 (sample_index s idx))
              (bget (slice 2 (Some 2) None wo) (sample_index s idx))
              (bget pdf0 (sample_index s idx))
              (bget (brdf_density pdfs) (sample_index s idx))) / real (lm_spp lm)" for idx
  proof -
    have "shape bd = grid" using rd by simp
    from color_read(2)[OF this sli gr, of idx] show ?thesis unfolding cd g5 tmd .
  qed
  have spec: "if use_specular L
        then \<forall>idx. el cs idx =
          (\<Sum>s<lm_spp lm. spec_sample_term
              (bget eval_spec (sample_index s idx))
              (bget light2 (sample_index s idx))
              (bget (slice 2 (Some 2) None wo) (sample_index s idx))
              (bget pdf0 (sample_index s idx))
              (bget (brdf_density pdfs) (sample_index s idx))) / real (lm_spp lm)
        else shape cs = shape cd \<and> (\<forall>idx. el cs idx = 0)"
  proof (cases "use_specular L")
    case True
    with cs obtain s6 where s6: "bshape (shape bs) s4 = Some s6" and c6: "cs = mean1 (bmap (*) s6 bs light)"
      by auto
    have g6: "s6 = grid" using s6 rs unfolding g4 by (simp add: bshape_refl)
    have "el cs idx = (\<Sum>s<lm_spp lm. spec_sample_term
              (bget eval_spec (sample_index s idx))
              (bget light2 (sample_index s idx))
              (bget (slice 2 (Some 2) None wo) (sample_index s idx))
              (bget pdf0 (sample_index s idx))
              (bget (brdf_density pdfs) (sample_index s idx))) / real (lm_spp lm)" for idx
    proof -
      have "shape bs = grid" using rs by simp
      from color_read(2)[OF this sli gr, of idx] show ?thesis unfolding c6 g6 tms .
    qed
    with True show ?thesis by simp
  next
    case False
    with cs show ?thesis by simp
  qed
  have fw: "forward L lm K T albedo rough metal normal vpos
           = Inr (t_colorDiffuse t, t_colorSpec t, t_wi_mask t, t_shading t)"
    unfolding forward_def ft by simp
  show ?thesis
    unfolding f using fw pd pc diff spec unfolding f by auto
qed

section \<open>The view direction and the BRDF weighting\<close>

lemma shape_slice:
  "shape (slice d a b t) = (shape t)[d := (case b of None \<Rightarrow> shape t ! d | Some k \<Rightarrow> py_bound (shape t ! d) k)
       - (case a of None \<Rightarrow> 0 | Some k \<Rightarrow> py_bound (shape t ! d) k)]"
  by (simp add: slice_def Let_def)

lemma el_slice:
  "el (slice d a b t) idx = el t (idx[d := idx ! d + (case a of None \<Rightarrow> 0 | Some k \<Rightarrow> py_bound (shape t ! d) k)])"
  by (simp add: slice_def Let_def)

lemma clamp_z_eq_Inr:
  "clamp_z t = Inr r \<longleftrightarrow> 3 \<le> shape t ! 1 \<and> r = map_channel 1 2 (\<lambda>z. max z (1 / 1000)) t"
  by (auto simp: clamp_z_def)

lemma fold_z_eq_Inr:
  "fold_z ax t = Inr r \<longleftrightarrow> 3 \<le> shape t ! ax \<and> r = map_channel ax 2 abs t"
  by (auto simp: fold_z_def)

text \<open>
  Claim C6. For the view direction in the local frames: the mask is 0 at every pixel whose
  local z-component, before the clamp, is below \<open>1e-6\<close> and 1 at every other pixel, and
  after the clamp of line 105 the local z-component is at least \<open>1e-3\<close> at every pixel.
\<close>

theorem view_direction_grazing_mask:
  assumes "view_direction L fx fy fz = Inr (wi, wi_mask)"
  shows "\<exists>pre post.
      view_local L fx fy fz = Inr pre \<and> clamp_z pre = Inr post \<and>
      wi = unsqueeze 1 (normalize (1 / 10 ^ 6) post) \<and>
      shape wi_mask = (shape pre)[1 := 1] \<and>
      (\<forall>idx. el wi_mask (idx[1 := 0]) = (if el pre (idx[1 := 2]) < 1 / 10 ^ 6 then 0 else 1)) \<and>
      (\<forall>idx. 2 \<le> length idx \<longrightarrow>
          el post (idx[1 := 2]) = max (el pre (idx[1 := 2])) (1 / 1000) \<and>
          1 / 1000 \<le> el post (idx[1 := 2]))"
proof -
  from assms obtain pre post where p: "view_local L fx fy fz = Inr pre"
    and c: "clamp_z pre = Inr post" and w: "wi = unsqueeze 1 (normalize (1 / 10 ^ 6) post)"
    and m: "wi_mask = grazing_mask pre"
    unfolding view_direction_def Let_def by (auto simp: ebind_eq_Inr)
  from c have n: "3 \<le> shape pre ! 1" and post: "post = map_channel 1 2 (\<lambda>z. max z (1 / 1000)) pre"
    by (simp_all add: clamp_z_eq_Inr)
  have lo: "py_bound (shape pre ! 1) 2 = 2" "py_bound (shape pre ! 1) 3 = 3"
    using n by (simp_all add: py_bound_def)
  have sm: "shape wi_mask = (shape pre)[1 := 1]"
    unfolding m grazing_mask_def using lo by (simp add: shape_slice)
  have ix: "(idx[1 := 0])[1 := (idx[1 := 0]) ! 1 + 2] = idx[1 := 2]" for idx :: "nat list"
  proof (cases "1 < length idx")
    case True
    then show ?thesis by (simp add: numeral_2_eq_2)
  next
    case False
    then have "length idx \<le> 1" by simp
    then have a: "idx[1 := x] = idx" for x by (rule list_update_beyond)
    show ?thesis by (simp only: a)
  qed
  have em: "el wi_mask (idx[1 := 0]) = (if el pre (idx[1 := 2]) < 1 / 10 ^ 6 then 0 else 1)" for idx
    unfolding m grazing_mask_def el_tmap el_slice option.case lo ix ..
  have ep: "el post (idx[1 := 2]) = max (el pre (idx[1 := 2])) (1 / 1000) \<and>
          1 / 1000 \<le> el post (idx[1 := 2])" if "2 \<le> length idx" for idx
    using that unfolding post by (simp add: el_map_channel)
  show ?thesis using p c w sm em ep by blast
qed

lemma brdf_density_ones: "brdf_density pdfs = tmap (\<lambda>p. 1) pdfs"
  by (simp add: brdf_density_def tmap_def)

text \<open>
  Claim C10. In every call of \<^verbatim>\<open>forward\<close> that returns, the weighting density
  \<^verbatim>\<open>pdfs_brdf\<close> is 1 everywhere: the clamp to at least 0.001 acts on a tensor of ones and
  changes nothing. So the BRDF terms that the integrator receives are the evaluated terms
  unchanged.
\<close>

theorem brdf_density_identity:
  assumes ft: "forward_trace L lm K T albedo rough metal normal vpos = Inr t"
  shows "t_pdfs_brdf t = brdf_density (t_pdfs t) \<and>
         shape (t_pdfs_brdf t) = shape (t_pdfs t) \<and>
         (\<forall>idx. el (t_pdfs_brdf t) idx = 1) \<and>
         (\<forall>idx. el (tmap (\<lambda>p. 1) (t_pdfs t)) idx = 1) \<and>
         (\<forall>idx. el (t_brdfDiffuse t) idx = bget (t_eval_diff t) idx) \<and>
         (\<forall>idx. el (t_brdfSpec t) idx = bget (t_eval_spec t) idx)"
proof -
  define grid where "grid = [1, lm_spp lm, 3, t_irow t, t_icol t]"
  from forward_trace_read[OF ft] obtain wo_emitter wo pdfs eval_diff eval_spec bd bs
      light2 pdfc ndl light cd cs sh wm0 w wi1
    where bdw: "brdf_weighted grid eval_diff (brdf_density pdfs) = Inr bd"
      and bsw: "brdf_weighted grid eval_spec (brdf_density pdfs) = Inr bs"
      and t: "t = \<lparr>t_window = w, t_irow = t_irow t, t_icol = t_icol t, t_wi = wi1,
           t_wo_emitter = wo_emitter, t_wo = wo, t_direction = t_direction t,
           t_vpos = t_vpos t, t_pdfs = pdfs, t_pdfs_brdf = brdf_density pdfs,
           t_eval_diff = eval_diff, t_eval_spec = eval_spec,
           t_brdfDiffuse = bd, t_brdfSpec = bs, t_light = light2,
           t_pdf_emitter = pdfc, t_ndl = ndl, t_light_weighted = light,
           t_colorDiffuse = cd, t_colorSpec = cs,
           t_wi_mask = wm0, t_shading = sh\<rparr>"
    unfolding grid_def by (metis (no_types, lifting) trace.select_convs)
  have f: "t_pdfs_brdf t = brdf_density pdfs" "t_pdfs t = pdfs" "t_eval_diff t = eval_diff"
    "t_eval_spec t = eval_spec" "t_brdfDiffuse t = bd" "t_brdfSpec t = bs"
    by (subst t, simp)+
  have one: "bget (brdf_density pdfs) idx = 1" for idx
    by (simp add: brdf_density_ones bget_def)
  have r: "el b idx = bget ev idx" if "brdf_weighted grid ev (brdf_density pdfs) = Inr b" for b ev idx
  proof -
    from that obtain s where e: "expands_to grid ev" and b: "b = bmap (/) s (expanded grid ev) (brdf_density pdfs)"
      unfolding brdf_weighted_def by (auto simp: ebind_eq_Inr expand_eq_Inr bop_eq_Inr)
    show ?thesis unfolding b by (simp add: one bget_expanded[OF e])
  qed
  show ?thesis unfolding f using r[OF bdw] r[OF bsw] by (simp add: brdf_density_ones)
qed

section \<open>The screen-space block\<close>

lemma shape_mask_filled [simp]: "shape (mask_filled hit v t) = shape t"
  by (simp add: mask_filled_def)


lemma shape_flipped [simp]: "shape (flipped t) = shape t"
  by (simp add: flipped_def)


lemma mask_fill_eq_Inr:
  "mask_fill hit v t = Inr r \<longleftrightarrow> shape hit = take (length (shape hit)) (shape t) \<and> r = mask_filled hit v t"
  by (auto simp: mask_fill_def)

lemma flip1_eq_Inr: "flip1 t = Inr r \<longleftrightarrow> 2 \<le> length (shape t) \<and> r = flipped t"
  by (auto simp: flip1_def)

lemma ssrt_post_read:
  assumes "ssrt_post uv hit dz = Inr (ssrt_uv, unc)"
  shows "ssrt_uv = flipped (mask_filled hit (- 1) uv) \<and>
         unc = mask_filled hit 1 (tmap (\<lambda>d. tanh (10 * d)) dz)"
  using assms unfolding ssrt_post_def Let_def
  by (auto simp: ebind_eq_Inr mask_fill_eq_Inr flip1_eq_Inr)



lemma ssrt_block_read:
  assumes "ssrt_block L T w irow icol albedo rough metal normal vpos direction
             = Inr (direction1, vpos_clip, ssrt_direction, ssrt_uv, unc)"
  shows "direction1 = last_sample direction \<and>
         reshape_infer [] [3] direction1 = Inr ssrt_direction \<and>
         (\<exists>uv hit dz. T L vpos normal w ssrt_direction = Inr (uv, hit, dz) \<and>
                       ssrt_post uv hit dz = Inr (ssrt_uv, unc)) \<and>
         4 \<le> length (shape vpos) \<and> vpos_clip = clip4 w vpos"
  using assms unfolding ssrt_block_def Let_def
  by (auto simp: ebind_eq_Inr split: if_split_asm)




section \<open>The test scene\<close>

lemma scene_layer_eq:
  "imHeight (scene_layer kind ssrt specular) = 2" "imWidth (scene_layer kind ssrt specular) = 2"
  "shape (buf_v (scene_layer kind ssrt specular)) = [1, 3, 2, 2]"
  "double_sided (scene_layer kind ssrt specular)"
  "use_ssrt (scene_layer kind ssrt specular) = ssrt"
  "use_specular (scene_layer kind ssrt specular) = specular"
  "brdf_type (scene_layer kind ssrt specular) = kind"
  "spp (scene_layer kind ssrt specular) = 1"
  by (simp_all add: scene_layer_def init_def Let_def)

lemma shape_stack1: "shape (stack1 ts) = take 1 (shape (hd ts)) @ [length ts] @ drop 1 (shape (hd ts))"
  by (simp add: stack1_def)

lemma shape_select: "shape (select d k t) = take d (shape t) @ drop (Suc d) (shape t)"
  by (simp add: select_def)

lemma shape_concatenated: "shape (concatenated a b c) = (hd (shape a) + hd (shape b) + hd (shape c)) # tl (shape a)"
  by (simp add: concatenated_def Let_def)

lemma shape_const_grid [simp]: "shape (const_grid shp ax d) = shp"
  by (simp add: const_grid_def split: prod.splits)

lemmas shape_simps = shape_slice shape_stack1 shape_select shape_concatenated py_bound_def

lemmas stage_defs = forward_trace_def local_axes_def create_frame_def view_direction_def view_local_def
  to_local_def light_direction_def brdf_eval_def brdf_density_def brdf_weighted_def integrator_def
  fold_z_def clamp_z_def grazing_mask_def clip4_def clip5_def clip_window_def

lemmas guard_defs = bop_def bshape_def expand_def expands_to_def cat0_def permute_def reshape_def
  reshape_infer_def numel_def

lemmas scene_defs = scene_albedo_def scene_rough_def scene_metal_def scene_normal_def scene_vpos_def
  scene_light_def scene_brdf_def

lemma scene_trace:
  "\<exists>t. forward_trace (scene_layer ''diffuse'' False specular) (scene_light 1 d) scene_brdf scene_tracer
          scene_albedo scene_rough scene_metal scene_normal scene_vpos = Inr t \<and>
       t_irow t = 2 \<and> t_icol t = 2 \<and>
       t_pdfs t = \<lparr>shape = [1, 1, 1, 2, 2], el = (\<lambda>idx. 1 / 2)\<rparr> \<and>
       shape (t_pdfs_brdf t) = [1, 1, 1, 2, 2] \<and>
       shape (t_pdf_emitter t) = [1, 1, 1, 2, 2] \<and> shape (t_ndl t) = [1, 1, 1, 2, 2]"
  by (simp add: stage_defs guard_defs shape_simps scene_layer_eq Let_def scene_defs)


theorem brdf_density_identity_witness:
  "\<exists>t. forward_trace (scene_layer ''diffuse'' False False) (scene_light 1 (0, 0, 1)) scene_brdf
          scene_tracer scene_albedo scene_rough scene_metal scene_normal scene_vpos = Inr t \<and>
       (\<forall>idx. el (t_pdfs t) idx = 1 / 2) \<and> (\<forall>idx. el (t_pdfs_brdf t) idx = 1) \<and>
       (\<forall>idx. el (t_brdfDiffuse t) idx = bget (t_eval_diff t) idx) \<and>
       (\<forall>idx. el (t_brdfSpec t) idx = bget (t_eval_spec t) idx)"
proof -
  from scene_trace[of False "(0, 0, 1)"] obtain t
    where ft: "forward_trace (scene_layer ''diffuse'' False False) (scene_light 1 (0, 0, 1)) scene_brdf
          scene_tracer scene_albedo scene_rough scene_metal scene_normal scene_vpos = Inr t"
      and p: "t_pdfs t = \<lparr>shape = [1, 1, 1, 2, 2], el = (\<lambda>idx. 1 / 2)\<rparr>"
    by blast
  have "\<forall>idx. el (t_pdfs t) idx = 1 / 2" unfolding p by simp
  with brdf_density_identity[OF ft] ft show ?thesis by blast
qed

lemma scene_axes:
  "\<exists>cx cy cz fx fy fz. local_axes scene_normal = Inr (cx, cy, cz, fx, fy, fz) \<and>
     shape fx = [1, 3, 2, 2] \<and> shape fy = [1, 3, 2, 2] \<and> shape fz = [1, 3, 2, 2]"
  by (simp add: local_axes_def create_frame_def scene_normal_def Let_def cat0_def permute_def shape_simps)

lemma scene_view:
  assumes "shape fx = [1, 3, 2, 2]" "shape fy = [1, 3, 2, 2]" "shape fz = [1, 3, 2, 2]"
  shows "\<exists>wi wm. view_direction (scene_layer kind ssrt specular) fx fy fz = Inr (wi, wm)"
  using assms
  by (simp add: view_direction_def view_local_def to_local_def bop_def bshape_def fold_z_def clamp_z_def
     scene_layer_eq shape_simps Let_def)

theorem view_direction_grazing_mask_witness:
  "\<exists>cx cy cz fx fy fz wi wi_mask pre post.
      local_axes scene_normal = Inr (cx, cy, cz, fx, fy, fz) \<and>
      view_direction (scene_layer ''diffuse'' False False) fx fy fz = Inr (wi, wi_mask) \<and>
      view_local (scene_layer ''diffuse'' False False) fx fy fz = Inr pre \<and> clamp_z pre = Inr post \<and>
      el wi_mask [0, 0, 1, 1] = (if el pre [0, 2, 1, 1] < 1 / 10 ^ 6 then 0 else 1) \<and>
      el post [0, 2, 1, 1] = max (el pre [0, 2, 1, 1]) (1 / 1000) \<and>
      1 / 1000 \<le> el post [0, 2, 1, 1]"
proof -
  from scene_axes obtain cx cy cz fx fy fz
    where a: "local_axes scene_normal = Inr (cx, cy, cz, fx, fy, fz)"
      and s: "shape fx = [1, 3, 2, 2]" "shape fy = [1, 3, 2, 2]" "shape fz = [1, 3, 2, 2]"
    by blast
  from scene_view[OF s] obtain wi wi_mask
    where v: "view_direction (scene_layer ''diffuse'' False False) fx fy fz = Inr (wi, wi_mask)"
    by blast
  from view_direction_grazing_mask[OF v] obtain pre post
    where p: "view_local (scene_layer ''diffuse'' False False) fx fy fz = Inr pre"
      "clamp_z pre = Inr post"
      and m: "\<forall>idx. el wi_mask (idx[1 := 0]) = (if el pre (idx[1 := 2]) < 1 / 10 ^ 6 then 0 else 1)"
      and c: "\<forall>idx. 2 \<le> length idx \<longrightarrow>
          el post (idx[1 := 2]) = max (el pre (idx[1 := 2])) (1 / 1000) \<and>
          1 / 1000 \<le> el post (idx[1 := 2])"
    by blast
  from m[rule_format, of "[0, 0, 1, 1]"] c[rule_format, of "[0, 0, 1, 1]"] a v p
  show ?thesis by simp
qed

lemma upt_4: "[0..<4] = [0, 1, 2, 3]"
  by (simp add: eval_nat_numeral)

lemma all_indices_4: "all_indices [4] = [[0], [1], [2], [3]]"
  by (simp add: upt_4)

section \<open>The directions to the light\<close>

lemma to_local_read:
  assumes "to_local ax d fx fy fz = Inr r"
  shows "el r idx =
     bget (slice ax (Some 0) (Some 1) d) idx * bget fx idx +
     bget (slice ax (Some 1) (Some 2) d) idx * bget fy idx +
     bget (slice ax (Some 2) (Some 3) d) idx * bget fz idx"
proof -
  from assms obtain s1 s2 s3 s4 s5 where
    s1: "bshape (shape (slice ax (Some 0) (Some 1) d)) (shape fx) = Some s1"
    and s2: "bshape (shape (slice ax (Some 1) (Some 2) d)) (shape fy) = Some s2"
    and s3: "bshape s1 s2 = Some s3"
    and s4: "bshape (shape (slice ax (Some 2) (Some 3) d)) (shape fz) = Some s4"
    and s5: "bshape s3 s4 = Some s5"
    and r: "r = bmap (+) s5 (bmap (+) s3 (bmap (*) s1 (slice ax (Some 0) (Some 1) d) fx)
                 (bmap (*) s2 (slice ax (Some 1) (Some 2) d) fy))
               (bmap (*) s4 (slice ax (Some 2) (Some 3) d) fz)"
    unfolding to_local_def
    by (auto simp: ebind_eq_Inr bop_eq_Inr split: if_split_asm)
  have a: "bget (bmap (*) s1 (slice ax (Some 0) (Some 1) d) fx) idx
         = bget (slice ax (Some 0) (Some 1) d) idx * bget fx idx"
    using bget_bmap[OF s1] .
  have b: "bget (bmap (*) s2 (slice ax (Some 1) (Some 2) d) fy) idx
         = bget (slice ax (Some 1) (Some 2) d) idx * bget fy idx"
    using bget_bmap[OF s2] .
  have c: "bget (bmap (*) s4 (slice ax (Some 2) (Some 3) d) fz) idx
         = bget (slice ax (Some 2) (Some 3) d) idx * bget fz idx"
    using bget_bmap[OF s4] .
  have ab: "bget (bmap (+) s3 (bmap (*) s1 (slice ax (Some 0) (Some 1) d) fx)
                 (bmap (*) s2 (slice ax (Some 1) (Some 2) d) fy)) idx
         = bget (slice ax (Some 0) (Some 1) d) idx * bget fx idx
         + bget (slice ax (Some 1) (Some 2) d) idx * bget fy idx"
    using bget_bmap[of "bmap (*) s1 (slice ax (Some 0) (Some 1) d) fx"
        "bmap (*) s2 (slice ax (Some 1) (Some 2) d) fy" s3 "(+)" idx] s3 a b by simp
  show ?thesis unfolding r el_bmap ab c ..
qed

lemma light_direction_read:
  assumes "light_direction L lm fx fy fz normal vpos = Inr (wo_emitter, wo, direction)"
  shows "sample_direction lm (unsqueeze 1 vpos) (unsqueeze 1 normal) = Inr wo_emitter \<and>
     (\<exists>wo0. to_local 2 wo_emitter (unsqueeze 1 fx) (unsqueeze 1 fy) (unsqueeze 1 fz) = Inr wo0 \<and>
        wo = (if double_sided L then map_channel 2 2 abs wo0 else wo0)) \<and>
     (\<forall>idx. el wo idx =
        (if double_sided L \<and> idx ! 2 = 2 then \<bar>local_component wo_emitter fx fy fz idx\<bar>
         else local_component wo_emitter fx fy fz idx))"
proof -
  from assms obtain wo0 where
    sd: "sample_direction lm (unsqueeze 1 vpos) (unsqueeze 1 normal) = Inr wo_emitter"
    and tl: "to_local 2 wo_emitter (unsqueeze 1 fx) (unsqueeze 1 fy) (unsqueeze 1 fz) = Inr wo0"
    and f: "(if double_sided L then fold_z 2 wo0 else Inr wo0) = Inr wo"
    unfolding light_direction_def
    by (auto simp: ebind_eq_Inr split: if_split_asm)
  have w: "wo = (if double_sided L then map_channel 2 2 abs wo0 else wo0)"
    using f by (auto simp: fold_z_eq_Inr split: if_split_asm)
  have e: "el wo0 idx = local_component wo_emitter fx fy fz idx" for idx
    unfolding local_component_def using to_local_read[OF tl] .
  have "el wo idx =
        (if double_sided L \<and> idx ! 2 = 2 then \<bar>local_component wo_emitter fx fy fz idx\<bar>
         else local_component wo_emitter fx fy fz idx)" for idx
    unfolding w by (simp add: el_map_channel e)
  with sd tl w show ?thesis by blast
qed


lemma el_unsqueeze: "el (unsqueeze d t) idx = el t (take d idx @ drop (Suc d) idx)"
  by (simp add: unsqueeze_def)

lemma spec_local_treatment_z: "0 < snd (snd (spec_local_treatment ds (x, y, z)))"
  by (simp add: spec_local_treatment_def Let_def zero_less_divide_iff less_max_iff_disj)

lemma local_axes_read:
  assumes "local_axes normal = Inr (cx, cy, cz, fx, fy, fz)"
  shows "create_frame normal (1 / 10 ^ 6) = Inr (cx, cy, cz)"
    and "fx = slice 0 (Some 0) (Some 1) (permuted [1, 0, 2, 3] (concatenated cx cy cz))"
    and "fy = slice 0 (Some 1) (Some 2) (permuted [1, 0, 2, 3] (concatenated cx cy cz))"
    and "fz = slice 0 (Some 2) (Some 3) (permuted [1, 0, 2, 3] (concatenated cx cy cz))"
  using assms unfolding local_axes_def
  by (auto simp: ebind_eq_Inr cat0_def permute_eq_Inr split: if_split_asm)

lemma create_frame_shape:
  assumes "create_frame n eps = Inr (x, y, z)" and "shape n = [b, 3, h, w]"
  shows "shape x = [b, 3, h, w]" and "shape y = [b, 3, h, w]" and "shape z = [b, 3, h, w]"
  using assms unfolding create_frame_def Let_def
  by (auto simp: shape_stack1 shape_select split: if_split_asm)

lemma el_permuted_1023: "el (permuted [1, 0, 2, 3] t) [a, b, c, d] = el t [b, a, c, d]"
  by (simp add: permuted_def axis_position_def upt_4)

lemma el_concatenated3:
  assumes "hd (shape a) = 1" "hd (shape b) = 1"
  shows "el (concatenated a b c) (k # r)
           = (if k = 0 then el a (0 # r) else if k = 1 then el b (0 # r) else el c ((k - 2) # r))"
  using assms by (auto simp: concatenated_def Let_def numeral_2_eq_2)

lemma local_axes_fx:
  assumes la: "local_axes normal = Inr (cx, cy, cz, fx, fy, fz)" and s: "shape normal = [1, 3, h, w]"
  shows "shape fx = [1, 3, h, w]" and "shape fy = [1, 3, h, w]" and "shape fz = [1, 3, h, w]"
    and "el fx [0, k, i, j]
           = (if k = 0 then el cx [0, 0, i, j] else if k = 1 then el cy [0, 0, i, j]
              else el cz [k - 2, 0, i, j])"
proof -
  note r = local_axes_read[OF la]
  note sh = create_frame_shape[OF r(1) s]
  show "shape fx = [1, 3, h, w]" "shape fy = [1, 3, h, w]" "shape fz = [1, 3, h, w]"
    unfolding r by (simp_all add: shape_slice shape_concatenated sh py_bound_def)
  have p: "py_bound (shape (permuted [1, 0, 2, 3] (concatenated cx cy cz)) ! 0) 0 = 0"
    by (simp add: py_bound_def)
  have "el fx [0, k, i, j] = el (permuted [1, 0, 2, 3] (concatenated cx cy cz)) [0, k, i, j]"
    unfolding r(2) el_slice option.case p by simp
  also have "\<dots> = el (concatenated cx cy cz) [k, 0, i, j]"
    by (rule el_permuted_1023)
  also have "\<dots> = (if k = 0 then el cx [0, 0, i, j] else if k = 1 then el cy [0, 0, i, j]
              else el cz [k - 2, 0, i, j])"
    by (simp add: el_concatenated3 sh)
  finally show "el fx [0, k, i, j]
           = (if k = 0 then el cx [0, 0, i, j] else if k = 1 then el cy [0, 0, i, j]
              else el cz [k - 2, 0, i, j])" .
qed

lemma scene_axes_el:
  "\<exists>cx cy cz fx fy fz. local_axes scene_normal = Inr (cx, cy, cz, fx, fy, fz) \<and>
     shape fx = [1, 3, 2, 2] \<and> shape fy = [1, 3, 2, 2] \<and> shape fz = [1, 3, 2, 2] \<and>
     el fx [0, 0, 0, 0] = 1 \<and> el fx [0, 1, 0, 0] = 0 \<and> el fx [0, 2, 0, 0] = 0"
proof -
  have sn: "shape scene_normal = [1, 3, 2, 2]" by (simp add: scene_normal_def)
  from scene_axes obtain cx cy cz fx fy fz
    where la: "local_axes scene_normal = Inr (cx, cy, cz, fx, fy, fz)" by blast
  note cf = local_axes_read(1)[OF la]
  have v: "vec_at scene_normal [0, 0, 0, 0] = (0, 0, 1)"
    by (simp add: vec_at_def scene_normal_def const_grid_def)
  from create_frame_at[of scene_normal "[0, 0, 0, 0]" "1 / 10 ^ 6"] cf
  have "(vec_at cx [0, 0, 0, 0], vec_at cy [0, 0, 0, 0], vec_at cz [0, 0, 0, 0])
          = frame_of (0, 0, 1) (1 / 10 ^ 6)"
    unfolding v by (simp add: sn)
  also have "\<dots> = ((1, 0, 0), (0, 1, 0), (0, 0, 1))"
    by (simp add: frame_of_def Let_def frame_denominator_def)
  finally have e: "el cx [0, 0, 0, 0] = 1" "el cy [0, 0, 0, 0] = 0" "el cz [0, 0, 0, 0] = 0"
    by (simp_all add: vec_at_def)
  note f = local_axes_fx[OF la sn]
  have "el fx [0, 0, 0, 0] = 1" "el fx [0, 1, 0, 0] = 0" "el fx [0, 2, 0, 0] = 0"
    using f(4)[of 0 0 0] f(4)[of 1 0 0] f(4)[of 2 0 0] e by simp_all
  with la f(1-3) show ?thesis by blast
qed

lemma forward_light_direction:
  assumes ft: "forward_trace L lm K T albedo rough metal normal vpos = Inr t"
  shows "\<exists>cx cy cz fx fy fz direction.
           local_axes normal = Inr (cx, cy, cz, fx, fy, fz) \<and>
           light_direction L lm fx fy fz normal vpos = Inr (t_wo_emitter t, t_wo t, direction)"
proof -
  from forward_trace_read[OF ft] obtain cx cy cz fx fy fz wo_emitter wo direction
    where la: "local_axes normal = Inr (cx, cy, cz, fx, fy, fz)"
      and ld: "light_direction L lm fx fy fz normal vpos = Inr (wo_emitter, wo, direction)"
      and tw: "t_wo t = wo" "t_wo_emitter t = wo_emitter"
    by (metis (no_types, lifting) trace.select_convs)
  then show ?thesis by blast
qed

text \<open>
  Claim C3, as stated: the sampled directions get the treatment of the view direction,
  with the clamp of the local z to \<open>1e-3\<close> and the renormalisation. In the test scene with
  the light sampled along the surface, direction \<open>(1, 0, 0)\<close> on the normal \<open>(0, 0, 1)\<close>,
  the local \<^verbatim>\<open>wo\<close> of pixel \<open>(0, 0)\<close> is \<open>(1, 0, 0)\<close>: its z-component is 0, below the
  floor, while the treated vector would have a positive z-component.
\<close>

theorem light_direction_not_clamped:
  "(case forward_trace (scene_layer ''diffuse'' False False) (scene_light 1 (1, 0, 0)) scene_brdf
          scene_tracer scene_albedo scene_rough scene_metal scene_normal scene_vpos of
      Inl e \<Rightarrow> False
    | Inr t \<Rightarrow>
        (el (t_wo t) [0, 0, 0, 0, 0], el (t_wo t) [0, 0, 1, 0, 0], el (t_wo t) [0, 0, 2, 0, 0])
          = (1, 0, 0) \<and>
        el (t_wo t) [0, 0, 2, 0, 0] < 1 / 1000) \<and>
   0 < snd (snd (spec_local_treatment True (1, 0, 0)))"
proof -
  let ?L = "scene_layer ''diffuse'' False False"
  let ?lm = "scene_light 1 (1, 0, 0)"
  from scene_trace[of False "(1, 0, 0)"] obtain t
    where ft: "forward_trace ?L ?lm scene_brdf
          scene_tracer scene_albedo scene_rough scene_metal scene_normal scene_vpos = Inr t"
    by blast
  from forward_light_direction[OF ft] obtain cx cy cz fx fy fz direction
    where la: "local_axes scene_normal = Inr (cx, cy, cz, fx, fy, fz)"
      and ld: "light_direction ?L ?lm fx fy fz scene_normal scene_vpos
                 = Inr (t_wo_emitter t, t_wo t, direction)"
    by blast
  from scene_axes_el la have
    s: "shape fx = [1, 3, 2, 2]" "shape fy = [1, 3, 2, 2]" "shape fz = [1, 3, 2, 2]"
    and e: "el fx [0, 0, 0, 0] = 1" "el fx [0, 1, 0, 0] = 0" "el fx [0, 2, 0, 0] = 0"
    by auto
  note r = light_direction_read[OF ld]
  from r have E: "t_wo_emitter t = const_grid [1, 1, 3, 2, 2] 2 (1, 0, 0)"
    by (simp add: scene_light_def)
  have ds: "double_sided ?L" by (simp add: scene_layer_eq)
  have c: "local_component (t_wo_emitter t) fx fy fz [0, 0, k, 0, 0] = el fx [0, k, 0, 0]"
    if "k < 3" for k
    using that unfolding local_component_def E
    by (simp add: bget_def bidx_def shape_simps el_slice el_unsqueeze s const_grid_def)
  have w: "el (t_wo t) [0, 0, 0, 0, 0] = 1" "el (t_wo t) [0, 0, 1, 0, 0] = 0"
    "el (t_wo t) [0, 0, 2, 0, 0] = 0"
    using r ds c[of 0] c[of 1] c[of 2] e by simp_all
  show ?thesis
    unfolding ft using w spec_local_treatment_z[of True 1 0 0] by simp
qed

text \<open>
  Claim C3, amended: in every call of \<^verbatim>\<open>forward\<close> that returns, every component of every
  sampled direction in the local frame is the sum of the products of its world components
  with \<^verbatim>\<open>fx\<close>, \<^verbatim>\<open>fy\<close> and \<^verbatim>\<open>fz\<close>, the transformation of the view direction, and the
  z-component is replaced by its absolute value when the layer is double-sided. Nothing
  else is applied to \<^verbatim>\<open>wo\<close>: no mask, no clamp and no renormalisation.
\<close>

theorem light_direction_local:
  assumes ft: "forward_trace L lm K T albedo rough metal normal vpos = Inr t"
  shows "\<exists>cx cy cz fx fy fz.
      local_axes normal = Inr (cx, cy, cz, fx, fy, fz) \<and>
      sample_direction lm (unsqueeze 1 vpos) (unsqueeze 1 normal) = Inr (t_wo_emitter t) \<and>
      (\<forall>idx. el (t_wo t) idx =
         (if double_sided L \<and> idx ! 2 = 2
          then \<bar>local_component (t_wo_emitter t) fx fy fz idx\<bar>
          else local_component (t_wo_emitter t) fx fy fz idx))"
proof -
  from forward_light_direction[OF ft] obtain cx cy cz fx fy fz direction
    where la: "local_axes normal = Inr (cx, cy, cz, fx, fy, fz)"
      and ld: "light_direction L lm fx fy fz normal vpos
                 = Inr (t_wo_emitter t, t_wo t, direction)"
    by blast
  from light_direction_read[OF ld] la show ?thesis by blast
qed

theorem light_direction_local_witness:
  "\<exists>t cx cy cz fx fy fz.
      forward_trace (scene_layer ''diffuse'' False False) (scene_light 1 (0, 0, 1)) scene_brdf
          scene_tracer scene_albedo scene_rough scene_metal scene_normal scene_vpos = Inr t \<and>
      local_axes scene_normal = Inr (cx, cy, cz, fx, fy, fz) \<and>
      sample_direction (scene_light 1 (0, 0, 1)) (unsqueeze 1 scene_vpos) (unsqueeze 1 scene_normal)
        = Inr (t_wo_emitter t) \<and>
      el (t_wo t) [0, 0, 2, 1, 1] = \<bar>local_component (t_wo_emitter t) fx fy fz [0, 0, 2, 1, 1]\<bar> \<and>
      el (t_wo t) [0, 0, 0, 1, 1] = local_component (t_wo_emitter t) fx fy fz [0, 0, 0, 1, 1]"
proof -
  let ?L = "scene_layer ''diffuse'' False False"
  from scene_trace[of False "(0, 0, 1)"] obtain t
    where ft: "forward_trace ?L (scene_light 1 (0, 0, 1)) scene_brdf
          scene_tracer scene_albedo scene_rough scene_metal scene_normal scene_vpos = Inr t"
    by blast
  have ds: "double_sided ?L" by (simp add: scene_layer_eq)
  from light_direction_local[OF ft] obtain cx cy cz fx fy fz
    where la: "local_axes scene_normal = Inr (cx, cy, cz, fx, fy, fz)"
      and sd: "sample_direction (scene_light 1 (0, 0, 1)) (unsqueeze 1 scene_vpos)
                 (unsqueeze 1 scene_normal) = Inr (t_wo_emitter t)"
      and e: "\<forall>idx. el (t_wo t) idx =
         (if double_sided ?L \<and> idx ! 2 = 2
          then \<bar>local_component (t_wo_emitter t) fx fy fz idx\<bar>
          else local_component (t_wo_emitter t) fx fy fz idx)"
    by blast
  have "el (t_wo t) [0, 0, 2, 1, 1] = \<bar>local_component (t_wo_emitter t) fx fy fz [0, 0, 2, 1, 1]\<bar>"
    "el (t_wo t) [0, 0, 0, 1, 1] = local_component (t_wo_emitter t) fx fy fz [0, 0, 0, 1, 1]"
    using e[rule_format, of "[0, 0, 2, 1, 1]"] e[rule_format, of "[0, 0, 0, 1, 1]"] ds by simp_all
  with ft la sd show ?thesis by blast
qed

section \<open>The checks on the inputs\<close>

lemma forward_assertion:
  assumes "shape albedo = [bn, c, row, col]"
    and "bn \<noteq> 1 \<or> int row \<noteq> imHeight L \<or> int col \<noteq> imWidth L"
  shows "forward L lm K T albedo rough metal normal vpos = Inl AssertionError"
  using assms by (auto simp: forward_def forward_trace_def)

lemma forward_unpack:
  assumes "length (shape albedo) \<noteq> 4"
  shows "forward L lm K T albedo rough metal normal vpos = Inl ValueError"
  using assms by (auto simp: forward_def forward_trace_def split: list.splits)

lemma forward_diffuse_rough:
  assumes "brdf_type L = ''diffuse''" and "\<not> use_ssrt L"
    and "4 \<le> length (shape rough)" and "4 \<le> length (shape metal)"
    and "4 \<le> length (shape rough')" and "4 \<le> length (shape metal')"
  shows "forward L lm K T albedo rough metal normal vpos
       = forward L lm K T albedo rough' metal' normal vpos"
proof -
  have m: "\<not> length (shape metal) < 4" "\<not> length (shape rough) < 4"
    "\<not> length (shape metal') < 4" "\<not> length (shape rough') < 4"
    using assms by simp_all
  have b: "brdf_eval L K a r m wi wo =
       ebind (pdf_diffuse K wi wo) (\<lambda>p.
       ebind (eval_diffuse K a wi wo) (\<lambda>(eval_diff, eval_spec, m).
         Inr (p, eval_diff, eval_spec)))" for a r m wi wo
    using assms(1) by (simp add: brdf_eval_def)
  have "forward_trace L lm K T albedo rough metal normal vpos
      = forward_trace L lm K T albedo rough' metal' normal vpos"
    unfolding forward_trace_def Let_def if_not_P[OF m(1)] if_not_P[OF m(2)] if_not_P[OF m(3)]
      if_not_P[OF m(4)] if_not_P[OF assms(2)]
      b ..
  then show ?thesis by (simp add: forward_def)
qed


text \<open>
  Claim C9, as stated: a call fails with a shape error when any of the five inputs has a
  batch size other than 1 or a grid other than that of the layer. The assertions of lines
  78-79 read \<^verbatim>\<open>albedo.shape\<close> only: on the \<open>2 \<times> 2\<close> layer of the test scene, with the
  diffuse kernels and without tracing, a roughness map of shape \<open>[2, 1, 7, 9]\<close> is accepted
  and the call returns its four results.
\<close>

theorem forward_accepts_mismatched_roughness:
  "shape scene_rough_mismatched = [2, 1, 7, 9] \<and>
   imHeight (scene_layer ''diffuse'' False False) = 2 \<and>
   imWidth (scene_layer ''diffuse'' False False) = 2 \<and>
   \<not> isl (forward (scene_layer ''diffuse'' False False) (scene_light 1 (0, 0, 1)) scene_brdf
            scene_tracer scene_albedo scene_rough_mismatched scene_metal scene_normal scene_vpos)"
proof -
  let ?L = "scene_layer ''diffuse'' False False"
  from scene_trace[of False "(0, 0, 1)"] obtain t
    where ft: "forward_trace ?L (scene_light 1 (0, 0, 1)) scene_brdf
          scene_tracer scene_albedo scene_rough scene_metal scene_normal scene_vpos = Inr t"
    by blast
  have "forward ?L (scene_light 1 (0, 0, 1)) scene_brdf
          scene_tracer scene_albedo scene_rough_mismatched scene_metal scene_normal scene_vpos
      = forward ?L (scene_light 1 (0, 0, 1)) scene_brdf
          scene_tracer scene_albedo scene_rough scene_metal scene_normal scene_vpos"
    by (rule forward_diffuse_rough)
       (simp_all add: scene_layer_eq scene_rough_mismatched_def scene_rough_def scene_metal_def)
  also have "\<dots> = Inr (t_colorDiffuse t, t_colorSpec t, t_wi_mask t, t_shading t)"
    unfolding forward_def ft by simp
  finally have f: "forward ?L (scene_light 1 (0, 0, 1)) scene_brdf
          scene_tracer scene_albedo scene_rough_mismatched scene_metal scene_normal scene_vpos
      = Inr (t_colorDiffuse t, t_colorSpec t, t_wi_mask t, t_shading t)" .
  show ?thesis
    unfolding f by (simp add: scene_rough_mismatched_def scene_layer_eq)
qed

text \<open>
  Claim C9, amended: \<^verbatim>\<open>forward\<close> checks the shape of \<^verbatim>\<open>albedo\<close> and of no other input.
  It raises \<^verbatim>\<open>AssertionError\<close> when \<^verbatim>\<open>albedo\<close> has four axes and its batch size is not 1
  or its grid is not that of the layer, and \<^verbatim>\<open>ValueError\<close> when \<^verbatim>\<open>albedo\<close> does not have
  four axes, in both cases without any result. With the diffuse kernels and without
  tracing, roughness and metalness maps of at least four axes do not influence the call,
  whatever their shapes.
\<close>

theorem forward_shape_checks:
  "(shape albedo = [bn, c, row, col] \<and> (bn \<noteq> 1 \<or> int row \<noteq> imHeight L \<or> int col \<noteq> imWidth L)
      \<longrightarrow> forward L lm K T albedo rough metal normal vpos = Inl AssertionError) \<and>
   (length (shape albedo) \<noteq> 4
      \<longrightarrow> forward L lm K T albedo rough metal normal vpos = Inl ValueError) \<and>
   (brdf_type L = ''diffuse'' \<and> \<not> use_ssrt L \<and>
    4 \<le> length (shape rough) \<and> 4 \<le> length (shape metal) \<and>
    4 \<le> length (shape rough') \<and> 4 \<le> length (shape metal')
      \<longrightarrow> forward L lm K T albedo rough metal normal vpos
          = forward L lm K T albedo rough' metal' normal vpos)"
  using forward_assertion[of albedo bn c row col L lm K T rough metal normal vpos]
    forward_unpack[of albedo L lm K T rough metal normal vpos]
    forward_diffuse_rough[of L rough metal rough' metal' lm K T albedo normal vpos]
  by blast

theorem forward_shape_checks_witness:
  "forward (scene_layer ''diffuse'' False False) (scene_light 1 (0, 0, 1)) scene_brdf
      scene_tracer scene_albedo_batch2 scene_rough scene_metal scene_normal scene_vpos
     = Inl AssertionError \<and>
   forward (scene_layer ''diffuse'' False False) (scene_light 1 (0, 0, 1)) scene_brdf
      scene_tracer scene_albedo_rank3 scene_rough scene_metal scene_normal scene_vpos
     = Inl ValueError \<and>
   forward (scene_layer ''diffuse'' False False) (scene_light 1 (0, 0, 1)) scene_brdf
      scene_tracer scene_albedo scene_rough_mismatched scene_metal scene_normal scene_vpos
     = forward (scene_layer ''diffuse'' False False) (scene_light 1 (0, 0, 1)) scene_brdf
      scene_tracer scene_albedo scene_rough scene_metal scene_normal scene_vpos"
  using forward_shape_checks[where albedo = scene_albedo_batch2 and bn = 2 and c = 3 and row = 2
      and col = 2 and L = "scene_layer ''diffuse'' False False" and lm = "scene_light 1 (0, 0, 1)"
      and K = scene_brdf and T = scene_tracer and rough = scene_rough and metal = scene_metal
      and normal = scene_normal and vpos = scene_vpos]
    forward_shape_checks[where albedo = scene_albedo_rank3
      and L = "scene_layer ''diffuse'' False False" and lm = "scene_light 1 (0, 0, 1)"
      and K = scene_brdf and T = scene_tracer and rough = scene_rough and metal = scene_metal
      and normal = scene_normal and vpos = scene_vpos]
    forward_shape_checks[where albedo = scene_albedo
      and L = "scene_layer ''diffuse'' False False" and lm = "scene_light 1 (0, 0, 1)"
      and K = scene_brdf and T = scene_tracer and rough = scene_rough_mismatched
      and metal = scene_metal and rough' = scene_rough and metal' = scene_metal
      and normal = scene_normal and vpos = scene_vpos]
  by (simp add: scene_albedo_batch2_def scene_albedo_rank3_def scene_rough_mismatched_def
      scene_rough_def scene_metal_def scene_layer_eq)

section \<open>Reading a call that returns\<close>

lemma upt_5: "[0..<5] = [0, 1, 2, 3, 4]"
  by (simp add: eval_nat_numeral)









lemma forward_ssrt_read:
  assumes ft: "forward_trace L lm K T albedo rough metal normal vpos = Inr t" and us: "use_ssrt L"
  shows "\<exists>cx cy cz fx fy fz direction ssrt_direction ssrt_uv unc light0.
      local_axes normal = Inr (cx, cy, cz, fx, fy, fz) \<and>
      light_direction L lm fx fy fz normal vpos = Inr (t_wo_emitter t, t_wo t, direction) \<and>
      ssrt_block L T (t_window t) (t_irow t) (t_icol t) albedo rough metal normal vpos direction
        = Inr (t_direction t, t_vpos t, ssrt_direction, ssrt_uv, unc) \<and>
      radiance lm (t_direction t) = Inr light0"
proof -
  from forward_trace_read[OF ft] obtain cx cy cz fx fy fz wo_emitter wo direction bd bs
      light2 pdfc ndl light cd cs sh
    where la: "local_axes normal = Inr (cx, cy, cz, fx, fy, fz)"
      and ld: "light_direction L lm fx fy fz normal vpos = Inr (wo_emitter, wo, direction)"
      and sb: "(if use_ssrt L
       then ebind (ssrt_block L T (t_window t) (t_irow t) (t_icol t) albedo rough metal normal vpos direction)
              (\<lambda>(direction1, vpos_clip, ssrt_direction, ssrt_uv, uncertainty). Inr (direction1, vpos_clip))
       else Inr (direction, vpos)) = Inr (t_direction t, t_vpos t)"
      and ig: "integrator L lm (t_direction t) (t_vpos t) wo_emitter wo bd bs (t_irow t) (t_icol t)
        = Inr (light2, pdfc, ndl, light, cd, cs, sh)"
      and tw: "t_wo t = wo" "t_wo_emitter t = wo_emitter"
    by (metis (no_types, lifting) trace.select_convs)
  from sb us obtain ssrt_direction ssrt_uv unc
    where b: "ssrt_block L T (t_window t) (t_irow t) (t_icol t) albedo rough metal normal vpos direction
        = Inr (t_direction t, t_vpos t, ssrt_direction, ssrt_uv, unc)"
    by (auto simp: ebind_eq_Inr)
  from integrator_read[OF ig] obtain light0 where "radiance lm (t_direction t) = Inr light0"
    by blast
  with la ld b show ?thesis unfolding tw by blast
qed






lemma local_axes_el:
  assumes la: "local_axes normal = Inr (cx, cy, cz, fx, fy, fz)" and s: "shape normal = [1, 3, h, w]"
  shows "el fx [0, k, i, j]
           = (if k = 0 then el cx [0, 0, i, j] else if k = 1 then el cy [0, 0, i, j]
              else el cz [k - 2, 0, i, j])"
    and "el fy [0, k, i, j]
           = (if k = 0 then el cx [0, 1, i, j] else if k = 1 then el cy [0, 1, i, j]
              else el cz [k - 2, 1, i, j])"
    and "el fz [0, k, i, j]
           = (if k = 0 then el cx [0, 2, i, j] else if k = 1 then el cy [0, 2, i, j]
              else el cz [k - 2, 2, i, j])"
proof -
  note r = local_axes_read[OF la]
  note sh = create_frame_shape[OF r(1) s]
  let ?c = "permuted [1, 0, 2, 3] (concatenated cx cy cz)"
  have p: "py_bound (shape ?c ! 0) 0 = 0" "py_bound (shape ?c ! 0) 1 = 1" "py_bound (shape ?c ! 0) 2 = 2"
    by (simp_all add: py_bound_def shape_concatenated sh)
  have c: "el ?c [m, k, i, j] = (if k = 0 then el cx [0, m, i, j] else if k = 1 then el cy [0, m, i, j]
              else el cz [k - 2, m, i, j])" for m
    unfolding el_permuted_1023 by (simp add: el_concatenated3 sh)
  have "el fx [0, k, i, j] = el ?c [0, k, i, j]"
    unfolding r(2) el_slice option.case p by simp
  then show "el fx [0, k, i, j]
           = (if k = 0 then el cx [0, 0, i, j] else if k = 1 then el cy [0, 0, i, j]
              else el cz [k - 2, 0, i, j])" unfolding c .
  have "el fy [0, k, i, j] = el ?c [1, k, i, j]"
    unfolding r(3) el_slice option.case p by simp
  then show "el fy [0, k, i, j]
           = (if k = 0 then el cx [0, 1, i, j] else if k = 1 then el cy [0, 1, i, j]
              else el cz [k - 2, 1, i, j])" unfolding c .
  have "el fz [0, k, i, j] = el ?c [2, k, i, j]"
    unfolding r(4) el_slice option.case p by (simp add: numeral_2_eq_2)
  then show "el fz [0, k, i, j]
           = (if k = 0 then el cx [0, 2, i, j] else if k = 1 then el cy [0, 2, i, j]
              else el cz [k - 2, 2, i, j])" unfolding c .
qed

lemma wide_layer_eq:
  "imHeight (wide_layer kind ssrt specular) = 2" "imWidth (wide_layer kind ssrt specular) = 4"
  "shape (buf_v (wide_layer kind ssrt specular)) = [1, 3, 2, 4]"
  "\<not> double_sided (wide_layer kind ssrt specular)"
  "use_ssrt (wide_layer kind ssrt specular) = ssrt"
  "use_specular (wide_layer kind ssrt specular) = specular"
  "brdf_type (wide_layer kind ssrt specular) = kind"
  "spp (wide_layer kind ssrt specular) = 1"
  by (simp_all add: wide_layer_def init_def Let_def)

lemmas wide_defs = wide_albedo_def wide_rough_def wide_metal_def wide_normal_def wide_vpos_def
  wide_light_def wide_brdf_def wide_samples_def

lemma wide_trace:
  "\<exists>t. forward_trace (wide_layer ''ggx'' False specular) wide_light wide_brdf T
          wide_albedo wide_rough wide_metal wide_normal wide_vpos = Inr t \<and>
       t_irow t = 2 \<and> t_icol t = 4 \<and> t_window t = (0, 3, 0, 4) \<and>
       shape (t_wo t) = [1, 3, 3, 2, 4] \<and>
       shape (t_pdfs_brdf t) = [1, 3, 1, 2, 4] \<and>
       shape (t_pdf_emitter t) = [1, 3, 1, 2, 4] \<and> shape (t_ndl t) = [1, 3, 1, 2, 4]"
  by (simp add: stage_defs guard_defs shape_simps wide_layer_eq Let_def wide_defs)


lemma forward_brdf_read:
  assumes ft: "forward_trace L lm K T albedo rough metal normal vpos = Inr t"
  shows "brdf_eval L K (clip4 (t_window t) albedo) (clip4 (t_window t) rough)
           (clip4 (t_window t) metal) (t_wi t) (t_wo t) = Inr (t_pdfs t, t_eval_diff t, t_eval_spec t)"
    and "t_pdfs_brdf t = brdf_density (t_pdfs t)"
proof -
  from forward_trace_read[OF ft] obtain wo pdfs eval_diff eval_spec
    where be: "brdf_eval L K (clip4 (t_window t) albedo) (clip4 (t_window t) rough)
           (clip4 (t_window t) metal) (t_wi t) wo = Inr (pdfs, eval_diff, eval_spec)"
      and tw: "t_wo t = wo" "t_pdfs t = pdfs" "t_eval_diff t = eval_diff" "t_eval_spec t = eval_spec"
        "t_pdfs_brdf t = brdf_density pdfs"
    by (metis (no_types, lifting) trace.select_convs)
  show "brdf_eval L K (clip4 (t_window t) albedo) (clip4 (t_window t) rough)
           (clip4 (t_window t) metal) (t_wi t) (t_wo t) = Inr (t_pdfs t, t_eval_diff t, t_eval_spec t)"
    unfolding tw using be .
  show "t_pdfs_brdf t = brdf_density (t_pdfs t)" unfolding tw ..
qed

lemma forward_light_read:
  assumes ft: "forward_trace L lm K T albedo rough metal normal vpos = Inr t"
  shows "\<exists>light0. radiance lm (t_direction t) = Inr light0 \<and>
      t_light t = permuted [0, 1, 4, 2, 3] (reshaped [1, lm_spp lm, t_irow t, t_icol t, 3] light0)"
proof -
  from forward_trace_read[OF ft] obtain wo_emitter wo bd bs light2 pdfc ndl light cd cs sh
    where ig: "integrator L lm (t_direction t) (t_vpos t) wo_emitter wo bd bs (t_irow t) (t_icol t)
        = Inr (light2, pdfc, ndl, light, cd, cs, sh)"
      and tw: "t_light t = light2"
    by (metis (no_types, lifting) trace.select_convs)
  from integrator_read[OF ig] show ?thesis unfolding tw by blast
qed

lemma forward_direction_read:
  assumes ft: "forward_trace L lm K T albedo rough metal normal vpos = Inr t" and us: "\<not> use_ssrt L"
  shows "\<exists>cx cy cz fx fy fz.
           local_axes normal = Inr (cx, cy, cz, fx, fy, fz) \<and>
           light_direction L lm fx fy fz normal vpos = Inr (t_wo_emitter t, t_wo t, t_direction t)"
    and "t_vpos t = vpos"
proof -
  from forward_trace_read[OF ft] obtain cx cy cz fx fy fz wo_emitter wo direction
    where la: "local_axes normal = Inr (cx, cy, cz, fx, fy, fz)"
      and ld: "light_direction L lm fx fy fz normal vpos = Inr (wo_emitter, wo, direction)"
      and sb: "(if use_ssrt L
       then ebind (ssrt_block L T (t_window t) (t_irow t) (t_icol t) albedo rough metal normal vpos direction)
              (\<lambda>(direction1, vpos_clip, ssrt_direction, ssrt_uv, uncertainty). Inr (direction1, vpos_clip))
       else Inr (direction, vpos)) = Inr (t_direction t, t_vpos t)"
      and tw: "t_wo t = wo" "t_wo_emitter t = wo_emitter"
    by (metis (no_types, lifting) trace.select_convs)
  from sb us have d: "t_direction t = direction" "t_vpos t = vpos" by simp_all
  show "t_vpos t = vpos" using d by simp
  show "\<exists>cx cy cz fx fy fz.
           local_axes normal = Inr (cx, cy, cz, fx, fy, fz) \<and>
           light_direction L lm fx fy fz normal vpos = Inr (t_wo_emitter t, t_wo t, t_direction t)"
    unfolding tw d using la ld by blast
qed

section \<open>The colour estimate of a call\<close>

text \<open>
  Claim C1. In every call of \<^verbatim>\<open>forward\<close> that returns, the diffuse colour is the mean over
  the \<open>spp\<close> samples of \<^verbatim>\<open>brdf_diffuse * (light * max(wo.z, 0) / pdf_emitter) / brdf_density\<close>,
  where \<^verbatim>\<open>pdf_emitter\<close> is the density of the lighting model floored at 0.001; the specular
  colour is the same with \<^verbatim>\<open>brdf_spec\<close> when the specular flag is set, and otherwise it is
  zero everywhere and has the shape of the diffuse colour. Every factor is what the
  collaborators returned in this call: \<^verbatim>\<open>light\<close> is the radiance that the lighting model
  returned for the directions of the call, viewed on the sample grid, \<^verbatim>\<open>wo\<close> are the
  directions that it sampled, in the local frames, the BRDF terms are those of the kernels
  on the clipped maps, and the density is that of the lighting model for the sampled
  directions. The tensors are read with broadcasting; the three premises say that the BRDF
  density, the density of the lighting model and the cosine term have the shapes of their
  interfaces, so that axis 1 of the product is the sample axis.
\<close>

theorem forward_color_estimate:
  assumes ft: "forward_trace L lm K T albedo rough metal normal vpos = Inr t"
    and c1: "expands_to [1, lm_spp lm, 3, t_irow t, t_icol t] (t_pdfs_brdf t)"
    and c2: "expands_to [1, lm_spp lm, 3, t_irow t, t_icol t] (t_pdf_emitter t)"
    and c3: "expands_to [1, lm_spp lm, 3, t_irow t, t_icol t] (t_ndl t)"
  shows "forward L lm K T albedo rough metal normal vpos
           = Inr (t_colorDiffuse t, t_colorSpec t, t_wi_mask t, t_shading t) \<and>
    (\<exists>cx cy cz fx fy fz direction light0 pdf0.
       local_axes normal = Inr (cx, cy, cz, fx, fy, fz) \<and>
       light_direction L lm fx fy fz normal vpos = Inr (t_wo_emitter t, t_wo t, direction) \<and>
       (if use_ssrt L then t_direction t = last_sample direction
        else t_direction t = direction \<and> t_vpos t = vpos) \<and>
       brdf_eval L K (clip4 (t_window t) albedo) (clip4 (t_window t) rough)
           (clip4 (t_window t) metal) (t_wi t) (t_wo t) = Inr (t_pdfs t, t_eval_diff t, t_eval_spec t) \<and>
       t_pdfs_brdf t = brdf_density (t_pdfs t) \<and>
       radiance lm (t_direction t) = Inr light0 \<and>
       t_light t = permuted [0, 1, 4, 2, 3] (reshaped [1, lm_spp lm, t_irow t, t_icol t, 3] light0) \<and>
       pdf_direction lm (unsqueeze 1 (t_vpos t)) (t_wo_emitter t) = Inr pdf0 \<and>
       t_pdf_emitter t = tmap (\<lambda>p. max p (1 / 1000)) pdf0 \<and>
       (\<forall>idx. el (t_colorDiffuse t) idx =
          (\<Sum>s<lm_spp lm. spec_sample_term
              (bget (t_eval_diff t) (sample_index s idx))
              (bget (t_light t) (sample_index s idx))
              (bget (slice 2 (Some 2) None (t_wo t)) (sample_index s idx))
              (bget pdf0 (sample_index s idx))
              (bget (t_pdfs_brdf t) (sample_index s idx))) / real (lm_spp lm)) \<and>
       (if use_specular L
        then \<forall>idx. el (t_colorSpec t) idx =
          (\<Sum>s<lm_spp lm. spec_sample_term
              (bget (t_eval_spec t) (sample_index s idx))
              (bget (t_light t) (sample_index s idx))
              (bget (slice 2 (Some 2) None (t_wo t)) (sample_index s idx))
              (bget pdf0 (sample_index s idx))
              (bget (t_pdfs_brdf t) (sample_index s idx))) / real (lm_spp lm)
        else shape (t_colorSpec t) = shape (t_colorDiffuse t) \<and> (\<forall>idx. el (t_colorSpec t) idx = 0)))"
proof -
  note cf = forward_color_formula[OF ft c1 c2 c3]
  from cf obtain pdf0 where pd: "pdf_direction lm (unsqueeze 1 (t_vpos t)) (t_wo_emitter t) = Inr pdf0"
    and pc: "t_pdf_emitter t = tmap (\<lambda>p. max p (1 / 1000)) pdf0"
    and cd: "\<forall>idx. el (t_colorDiffuse t) idx =
          (\<Sum>s<lm_spp lm. spec_sample_term
              (bget (t_eval_diff t) (sample_index s idx))
              (bget (t_light t) (sample_index s idx))
              (bget (slice 2 (Some 2) None (t_wo t)) (sample_index s idx))
              (bget pdf0 (sample_index s idx))
              (bget (t_pdfs_brdf t) (sample_index s idx))) / real (lm_spp lm)"
    and cs: "if use_specular L
        then \<forall>idx. el (t_colorSpec t) idx =
          (\<Sum>s<lm_spp lm. spec_sample_term
              (bget (t_eval_spec t) (sample_index s idx))
              (bget (t_light t) (sample_index s idx))
              (bget (slice 2 (Some 2) None (t_wo t)) (sample_index s idx))
              (bget pdf0 (sample_index s idx))
              (bget (t_pdfs_brdf t) (sample_index s idx))) / real (lm_spp lm)
        else shape (t_colorSpec t) = shape (t_colorDiffuse t) \<and> (\<forall>idx. el (t_colorSpec t) idx = 0)"
    by blast
  from cf have fw: "forward L lm K T albedo rough metal normal vpos
           = Inr (t_colorDiffuse t, t_colorSpec t, t_wi_mask t, t_shading t)" by blast
  note br = forward_brdf_read[OF ft]
  from forward_light_read[OF ft] obtain light0 where ra: "radiance lm (t_direction t) = Inr light0"
    and tl: "t_light t = permuted [0, 1, 4, 2, 3] (reshaped [1, lm_spp lm, t_irow t, t_icol t, 3] light0)"
    by blast
  have "\<exists>cx cy cz fx fy fz direction.
       local_axes normal = Inr (cx, cy, cz, fx, fy, fz) \<and>
       light_direction L lm fx fy fz normal vpos = Inr (t_wo_emitter t, t_wo t, direction) \<and>
       (if use_ssrt L then t_direction t = last_sample direction
        else t_direction t = direction \<and> t_vpos t = vpos)"
  proof (cases "use_ssrt L")
    case True
    from forward_ssrt_read[OF ft True] obtain cx cy cz fx fy fz direction ssrt_direction ssrt_uv unc
      where la: "local_axes normal = Inr (cx, cy, cz, fx, fy, fz)"
        and ld: "light_direction L lm fx fy fz normal vpos = Inr (t_wo_emitter t, t_wo t, direction)"
        and b: "ssrt_block L T (t_window t) (t_irow t) (t_icol t) albedo rough metal normal vpos direction
          = Inr (t_direction t, t_vpos t, ssrt_direction, ssrt_uv, unc)"
      by blast
    from ssrt_block_read[OF b] have "t_direction t = last_sample direction" by simp
    with la ld True show ?thesis by auto
  next
    case False
    from forward_direction_read[OF ft False] False show ?thesis by auto
  qed
  then obtain cx cy cz fx fy fz direction
    where la: "local_axes normal = Inr (cx, cy, cz, fx, fy, fz)"
      and ld: "light_direction L lm fx fy fz normal vpos = Inr (t_wo_emitter t, t_wo t, direction)"
      and di: "if use_ssrt L then t_direction t = last_sample direction
        else t_direction t = direction \<and> t_vpos t = vpos"
    by blast
  show ?thesis
    apply (rule conjI[OF fw])
    apply (rule exI[of _ cx], rule exI[of _ cy], rule exI[of _ cz], rule exI[of _ fx],
        rule exI[of _ fy], rule exI[of _ fz], rule exI[of _ direction], rule exI[of _ light0],
        rule exI[of _ pdf0])
    apply (intro conjI)
    using la ld di br ra tl pd pc cd cs by blast+
qed

lemma el_permuted_01423: "el (permuted [0, 1, 4, 2, 3] t) [a, b, c, d, e] = el t [a, b, d, e, c]"
  by (simp add: permuted_def axis_position_def upt_5)

lemma wide_axes_el:
  assumes la: "local_axes wide_normal = Inr (cx, cy, cz, fx, fy, fz)"
  shows "shape fx = [1, 3, 2, 4]" and "shape fy = [1, 3, 2, 4]" and "shape fz = [1, 3, 2, 4]"
    and "el fx [0, 2, i, j] = 0" and "el fy [0, 2, i, j] = 0" and "el fz [0, 2, i, j] = 1"
proof -
  have sn: "shape wide_normal = [1, 3, 2, 4]" by (simp add: wide_normal_def)
  note f = local_axes_fx[OF la sn]
  show "shape fx = [1, 3, 2, 4]" "shape fy = [1, 3, 2, 4]" "shape fz = [1, 3, 2, 4]"
    using f(1-3) .
  note cf = local_axes_read(1)[OF la]
  have v: "vec_at wide_normal [0, 0, i, j] = (0, 0, 1)"
    by (simp add: vec_at_def wide_normal_def const_grid_def)
  from create_frame_at[of wide_normal "[0, 0, i, j]" "1 / 10 ^ 6"] cf
  have "(vec_at cx [0, 0, i, j], vec_at cy [0, 0, i, j], vec_at cz [0, 0, i, j])
          = frame_of (0, 0, 1) (1 / 10 ^ 6)"
    unfolding v by (simp add: sn)
  also have "\<dots> = ((1, 0, 0), (0, 1, 0), (0, 0, 1))"
    by (simp add: frame_of_def Let_def frame_denominator_def)
  finally have e: "el cz [0, 0, i, j] = 0" "el cz [0, 1, i, j] = 0" "el cz [0, 2, i, j] = 1"
    by (simp_all add: vec_at_def)
  note a = local_axes_el[OF la sn, of 2 i j]
  show "el fx [0, 2, i, j] = 0" "el fy [0, 2, i, j] = 0" "el fz [0, 2, i, j] = 1"
    using a e by simp_all
qed

theorem forward_color_estimate_witness:
  "\<exists>t. forward_trace (wide_layer ''ggx'' False True) wide_light wide_brdf wide_tracer
          wide_albedo wide_rough wide_metal wide_normal wide_vpos = Inr t \<and>
       lm_spp wide_light = 3 \<and> use_specular (wide_layer ''ggx'' False True) \<and>
       expands_to [1, 3, 3, 2, 4] (t_pdfs_brdf t) \<and> expands_to [1, 3, 3, 2, 4] (t_pdf_emitter t) \<and>
       expands_to [1, 3, 3, 2, 4] (t_ndl t) \<and>
       forward (wide_layer ''ggx'' False True) wide_light wide_brdf wide_tracer
          wide_albedo wide_rough wide_metal wide_normal wide_vpos
         = Inr (t_colorDiffuse t, t_colorSpec t, t_wi_mask t, t_shading t) \<and>
       el (t_colorDiffuse t) [0, 0, 1, 3] = 267 / pi \<and>
       el (t_colorSpec t) [0, 0, 1, 3] = 267 / 4"
proof -
  let ?L = "wide_layer ''ggx'' False True"
  from wide_trace[of True wide_tracer] obtain t
    where ft: "forward_trace ?L wide_light wide_brdf wide_tracer
          wide_albedo wide_rough wide_metal wide_normal wide_vpos = Inr t"
      and sh: "t_irow t = 2" "t_icol t = 4" "shape (t_pdfs_brdf t) = [1, 3, 1, 2, 4]"
        "shape (t_pdf_emitter t) = [1, 3, 1, 2, 4]" "shape (t_ndl t) = [1, 3, 1, 2, 4]"
      and wn: "t_window t = (0, 3, 0, 4)" and sw: "shape (t_wo t) = [1, 3, 3, 2, 4]"
    by blast
  have sp: "lm_spp wide_light = 3" by (simp add: wide_light_def)
  have g: "[1, lm_spp wide_light, 3, t_irow t, t_icol t] = [1, 3, 3, 2, 4]"
    using sh sp by simp
  have e: "expands_to [1, 3, 3, 2, 4] (t_pdfs_brdf t)"
    "expands_to [1, 3, 3, 2, 4] (t_pdf_emitter t)"
    "expands_to [1, 3, 3, 2, 4] (t_ndl t)"
    using sh by (simp_all add: expands_to_def bshape_def)
  have us: "use_specular ?L" and nds: "\<not> double_sided ?L" and bt: "brdf_type ?L = ''ggx''"
    by (simp_all add: wide_layer_eq)
  note th = forward_color_estimate[OF ft e[folded g], unfolded if_P[OF us]]
  from th have fw: "forward ?L wide_light wide_brdf wide_tracer
          wide_albedo wide_rough wide_metal wide_normal wide_vpos
         = Inr (t_colorDiffuse t, t_colorSpec t, t_wi_mask t, t_shading t)" by blast
  from th obtain cx cy cz fx fy fz direction light0 pdf0
    where la: "local_axes wide_normal = Inr (cx, cy, cz, fx, fy, fz)"
      and ld: "light_direction ?L wide_light fx fy fz wide_normal wide_vpos
                 = Inr (t_wo_emitter t, t_wo t, direction)"
      and be: "brdf_eval ?L wide_brdf (clip4 (t_window t) wide_albedo) (clip4 (t_window t) wide_rough)
           (clip4 (t_window t) wide_metal) (t_wi t) (t_wo t) = Inr (t_pdfs t, t_eval_diff t, t_eval_spec t)"
      and pb: "t_pdfs_brdf t = brdf_density (t_pdfs t)"
      and ra: "radiance wide_light (t_direction t) = Inr light0"
      and tl: "t_light t = permuted [0, 1, 4, 2, 3]
                 (reshaped [1, lm_spp wide_light, t_irow t, t_icol t, 3] light0)"
      and pd: "pdf_direction wide_light (unsqueeze 1 (t_vpos t)) (t_wo_emitter t) = Inr pdf0"
      and cd: "\<forall>idx. el (t_colorDiffuse t) idx =
          (\<Sum>s<lm_spp wide_light. spec_sample_term
              (bget (t_eval_diff t) (sample_index s idx))
              (bget (t_light t) (sample_index s idx))
              (bget (slice 2 (Some 2) None (t_wo t)) (sample_index s idx))
              (bget pdf0 (sample_index s idx))
              (bget (t_pdfs_brdf t) (sample_index s idx))) / real (lm_spp wide_light)"
      and cs: "\<forall>idx. el (t_colorSpec t) idx =
          (\<Sum>s<lm_spp wide_light. spec_sample_term
              (bget (t_eval_spec t) (sample_index s idx))
              (bget (t_light t) (sample_index s idx))
              (bget (slice 2 (Some 2) None (t_wo t)) (sample_index s idx))
              (bget pdf0 (sample_index s idx))
              (bget (t_pdfs_brdf t) (sample_index s idx))) / real (lm_spp wide_light)"
    by blast
  note ax = wide_axes_el[OF la]
  note r = light_direction_read[OF ld]
  from r have E: "t_wo_emitter t = wide_samples" by (simp add: wide_light_def)
  have L0: "light0 = \<lparr>shape = [3, 8, 3], el = (\<lambda>idx. 1 + real (idx ! 0))\<rparr>"
    using ra by (simp add: wide_light_def)
  have P0: "pdf0 = \<lparr>shape = [1, 3, 1, 2, 4], el = (\<lambda>idx. if idx ! 1 = 1 then 1 / 2000 else 1 / 2)\<rparr>"
    using pd by (simp add: wide_light_def)
  have ev: "t_eval_diff t = \<lparr>shape = [1, 1, 3, 2, 4],
                el = (\<lambda>idx. bget (clip4 (t_window t) wide_albedo) idx / pi)\<rparr>"
    "t_eval_spec t = \<lparr>shape = [1, 3, 3, 2, 4], el = (\<lambda>idx. 1 / 8)\<rparr>"
    using be by (simp_all add: brdf_eval_def bt wide_brdf_def)
  have si: "sample_index s [0, 0, 1, 3] = [0, s, 0, 1, 3]" for s
    by (simp add: sample_index_def)
  have a: "bget (t_eval_diff t) [0, s, 0, 1, 3] = 1 / (2 * pi)" for s
    unfolding ev wn
    by (simp add: bget_def bidx_def clip4_def shape_simps el_slice wide_albedo_def const_grid_def)
  have b: "bget (t_eval_spec t) [0, s, 0, 1, 3] = 1 / 8" for s
    unfolding ev by (simp add: bget_def)
  have tls: "shape (t_light t) = [1, 3, 3, 2, 4]"
    unfolding tl sp sh by simp
  have bi: "bidx [1, 3, 3, 2, 4] [0, s, 0, 1, 3] = [0, s, 0, 1, 3]" for s
    by (simp add: bidx_def)
  have sl0: "shape light0 = [3, 8, 3]" unfolding L0 by simp
  have l0: "bget (t_light t) [0, s, 0, 1, 3]
      = el light0 (unflat_index [3, 8, 3] (flat_index [1, 3, 2, 4, 3] [0, s, 1, 3, 0]))" for s
    unfolding bget_def tls bi unfolding tl sp sh el_permuted_01423 el_reshaped sl0 ..
  have l: "bget (t_light t) [0, 0, 0, 1, 3] = 1" "bget (t_light t) [0, 1, 0, 1, 3] = 2"
    "bget (t_light t) [0, 2, 0, 1, 3] = 3"
    unfolding l0 L0 by simp_all
  have lc: "local_component wide_samples fx fy fz [0, s, 2, 1, 3] = el wide_samples [0, s, 2, 1, 3]" for s
    unfolding local_component_def
    by (simp add: bget_def bidx_def shape_simps el_slice el_unsqueeze ax wide_samples_def)
  have wz: "el (t_wo t) [0, s, 2, 1, 3] = el wide_samples [0, s, 2, 1, 3]" for s
    using r nds lc[of s] unfolding E by simp
  have ws: "bget (slice 2 (Some 2) None (t_wo t)) [0, s, 0, 1, 3] = el (t_wo t) [0, s, 2, 1, 3]" for s
    by (simp add: bget_def bidx_def shape_simps el_slice sw numeral_2_eq_2)
  have w: "bget (slice 2 (Some 2) None (t_wo t)) [0, 0, 0, 1, 3] = 1"
    "bget (slice 2 (Some 2) None (t_wo t)) [0, 1, 0, 1, 3] = 4 / 5"
    "bget (slice 2 (Some 2) None (t_wo t)) [0, 2, 0, 1, 3] = - 1"
    unfolding ws wz by (simp_all add: wide_samples_def)
  have p: "bget pdf0 [0, 0, 0, 1, 3] = 1 / 2" "bget pdf0 [0, 1, 0, 1, 3] = 1 / 2000"
    "bget pdf0 [0, 2, 0, 1, 3] = 1 / 2"
    unfolding P0 by (simp_all add: bget_def bidx_def)
  have d: "bget (t_pdfs_brdf t) idx = 1" for idx
    unfolding pb by (simp add: bget_def brdf_density_ones)
  have vd: "el (t_colorDiffuse t) [0, 0, 1, 3] = 267 / pi"
    unfolding cd[rule_format] sp sum3 si a l w p d
    by (simp add: spec_sample_term_def)
  have vs: "el (t_colorSpec t) [0, 0, 1, 3] = 267 / 4"
    unfolding cs[rule_format] sp sum3 si b l w p d
    by (simp add: spec_sample_term_def)
  show ?thesis
    using ft sp us e fw vd vs by blast
qed

section \<open>The clipping of the grids\<close>

lemma slice_whole:
  fixes t :: "'a tensor"
  assumes "shape t ! d \<le> k"
  shows "slice d (Some 0) (Some (int k)) t = t"
proof -
  have p: "py_bound (shape t ! d) 0 = 0" "py_bound (shape t ! d) (int k) = shape t ! d"
    using assms by (simp_all add: py_bound_def)
  have "shape (slice d (Some 0) (Some (int k)) t) = shape t"
    by (simp add: shape_slice p)
  moreover have "el (slice d (Some 0) (Some (int k)) t) = el t"
    by (rule ext) (simp add: el_slice p)
  ultimately show ?thesis by simp
qed

lemma clip_window_even:
  assumes "even row" "even col"
  shows "\<exists>B R. clip_window (int row) (int col) = (0, int B, 0, int R) \<and> row \<le> B \<and> col \<le> R"
proof -
  have "row = 2 * (row div 2)" "col = 2 * (col div 2)" using assms by simp_all
  then have "row \<le> row div 2 + max (col div 2) (row div 2)"
    "col \<le> col div 2 + max (col div 2) (row div 2)"
    by linarith+
  then show ?thesis unfolding clip_window_int by blast
qed

lemma clip_whole:
  fixes g :: "'a tensor"
  assumes "even row" "even col"
  shows "shape g ! 2 = row \<Longrightarrow> shape g ! 3 = col \<Longrightarrow> length (shape g) = 4 \<Longrightarrow>
           clip4 (clip_window (int row) (int col)) g = g"
    and "shape g ! 3 = row \<Longrightarrow> shape g ! 4 = col \<Longrightarrow> length (shape g) = 5 \<Longrightarrow>
           clip5 (clip_window (int row) (int col)) g = g"
proof -
  from clip_window_even[OF assms] obtain B R
    where w: "clip_window (int row) (int col) = (0, int B, 0, int R)" and b: "row \<le> B" "col \<le> R"
    by blast
  show "clip4 (clip_window (int row) (int col)) g = g"
    if "shape g ! 2 = row" "shape g ! 3 = col" "length (shape g) = 4"
  proof -
    have 1: "slice 2 (Some 0) (Some (int B)) g = g"
      by (rule slice_whole) (use that b in simp)
    show ?thesis unfolding w clip4_def prod.case 1
      by (rule slice_whole) (use that b in simp)
  qed
  show "clip5 (clip_window (int row) (int col)) g = g"
    if "shape g ! 3 = row" "shape g ! 4 = col" "length (shape g) = 5"
  proof -
    have 1: "slice 3 (Some 0) (Some (int B)) g = g"
      by (rule slice_whole) (use that b in simp)
    show ?thesis unfolding w clip5_def prod.case 1
      by (rule slice_whole) (use that b in simp)
  qed
qed

lemma clip_extent_even:
  assumes "even row" "even col"
  shows "clip_extent row col = (0, row, 0, col)"
proof -
  have "row = 2 * (row div 2)" "col = 2 * (col div 2)" using assms by simp_all
  then have "row \<le> row div 2 + max (col div 2) (row div 2)"
    "col \<le> col div 2 + max (col div 2) (row div 2)"
    by linarith+
  then show ?thesis unfolding clip_extent_eq by (simp add: min_def)
qed

lemma forward_clip_read:
  assumes ft: "forward_trace L lm K T albedo rough metal normal vpos = Inr t"
  shows "\<exists>c row col cx cy cz fx fy fz wi0 wm0.
      shape albedo = [1, c, row, col] \<and> int row = imHeight L \<and> int col = imWidth L \<and>
      t_window t = clip_window (int row) (int col) \<and>
      local_axes normal = Inr (cx, cy, cz, fx, fy, fz) \<and>
      view_direction L fx fy fz = Inr (wi0, wm0) \<and>
      t_wi t = clip5 (t_window t) wi0 \<and> t_wi_mask t = clip4 (t_window t) wm0 \<and>
      t_irow t = shape (t_wi t) ! 3 \<and> t_icol t = shape (t_wi t) ! 4"
proof -
  from forward_trace_read[OF ft] obtain c row col cx cy cz fx fy fz wi0 wm0
    where a: "shape albedo = [1, c, row, col]" "int row = imHeight L" "int col = imWidth L"
      and la: "local_axes normal = Inr (cx, cy, cz, fx, fy, fz)"
      and vd: "view_direction L fx fy fz = Inr (wi0, wm0)"
      and tw: "t_window t = clip_window (int row) (int col)"
        "t_wi t = clip5 (clip_window (int row) (int col)) wi0"
        "t_wi_mask t = clip4 (clip_window (int row) (int col)) wm0"
        "t_irow t = shape (clip5 (clip_window (int row) (int col)) wi0) ! 3"
        "t_icol t = shape (clip5 (clip_window (int row) (int col)) wi0) ! 4"
    by (metis (no_types, lifting) trace.select_convs)
  show ?thesis
    using a la vd tw by auto
qed

text \<open>
  Claim C2, amended: in every call of \<^verbatim>\<open>forward\<close> that returns, the view direction and the
  view mask are sliced with the window of lines 83-85 and 110-113 and the kernels are
  evaluated on the albedo, roughness and metalness sliced with it. The window starts at
  row 0 and column 0. When the height and the width of the image are even, it covers the
  whole image: every pixel lies in it and every grid of the size of the image passes through
  unchanged, so that no pixel of a non-square image is cut away.
\<close>

theorem clip_window_covers_image:
  assumes ft: "forward_trace L lm K T albedo rough metal normal vpos = Inr t"
  shows "\<exists>c row col cx cy cz fx fy fz wi0 wm0.
      shape albedo = [1, c, row, col] \<and> int row = imHeight L \<and> int col = imWidth L \<and>
      t_window t = clip_window (int row) (int col) \<and>
      fst (t_window t) = 0 \<and> fst (snd (snd (t_window t))) = 0 \<and>
      local_axes normal = Inr (cx, cy, cz, fx, fy, fz) \<and>
      view_direction L fx fy fz = Inr (wi0, wm0) \<and>
      t_wi t = clip5 (t_window t) wi0 \<and> t_wi_mask t = clip4 (t_window t) wm0 \<and>
      t_irow t = shape (t_wi t) ! 3 \<and> t_icol t = shape (t_wi t) ! 4 \<and>
      brdf_eval L K (clip4 (t_window t) albedo) (clip4 (t_window t) rough)
        (clip4 (t_window t) metal) (t_wi t) (t_wo t) = Inr (t_pdfs t, t_eval_diff t, t_eval_spec t) \<and>
      (even row \<and> even col \<longrightarrow>
         clip_extent row col = (0, row, 0, col) \<and>
         (\<forall>i j. i < row \<and> j < col \<longrightarrow> in_clip_window row col i j) \<and>
         (\<forall>g :: real tensor. length (shape g) = 4 \<and> shape g ! 2 = row \<and> shape g ! 3 = col
             \<longrightarrow> clip4 (t_window t) g = g) \<and>
         (\<forall>g :: real tensor. length (shape g) = 5 \<and> shape g ! 3 = row \<and> shape g ! 4 = col
             \<longrightarrow> clip5 (t_window t) g = g) \<and>
         clip4 (t_window t) albedo = albedo)"
proof -
  from forward_clip_read[OF ft] obtain c row col cx cy cz fx fy fz wi0 wm0
    where a: "shape albedo = [1, c, row, col]" "int row = imHeight L" "int col = imWidth L"
      and tw: "t_window t = clip_window (int row) (int col)"
      and la: "local_axes normal = Inr (cx, cy, cz, fx, fy, fz)"
      and vd: "view_direction L fx fy fz = Inr (wi0, wm0)"
      and wi: "t_wi t = clip5 (t_window t) wi0" "t_wi_mask t = clip4 (t_window t) wm0"
        "t_irow t = shape (t_wi t) ! 3" "t_icol t = shape (t_wi t) ! 4"
    by blast
  have z: "fst (t_window t) = 0" "fst (snd (snd (t_window t))) = 0"
    unfolding tw clip_window_int by simp_all
  note be = forward_brdf_read(1)[OF ft]
  have ev: "clip_extent row col = (0, row, 0, col) \<and>
         (\<forall>i j. i < row \<and> j < col \<longrightarrow> in_clip_window row col i j) \<and>
         (\<forall>g :: real tensor. length (shape g) = 4 \<and> shape g ! 2 = row \<and> shape g ! 3 = col
             \<longrightarrow> clip4 (t_window t) g = g) \<and>
         (\<forall>g :: real tensor. length (shape g) = 5 \<and> shape g ! 3 = row \<and> shape g ! 4 = col
             \<longrightarrow> clip5 (t_window t) g = g) \<and>
         clip4 (t_window t) albedo = albedo"
    if e: "even row" "even col"
  proof -
    note ce = clip_extent_even[OF e]
    have 1: "\<forall>i j. i < row \<and> j < col \<longrightarrow> in_clip_window row col i j"
      by (simp add: in_clip_window_def ce)
    have 2: "clip4 (t_window t) g = g"
      if "length (shape g) = 4" "shape g ! 2 = row" "shape g ! 3 = col" for g :: "real tensor"
      unfolding tw using clip_whole(1)[OF e that(2,3,1)] .
    have 3: "clip5 (t_window t) g = g"
      if "length (shape g) = 5" "shape g ! 3 = row" "shape g ! 4 = col" for g :: "real tensor"
      unfolding tw using clip_whole(2)[OF e that(2,3,1)] .
    have 4: "clip4 (t_window t) albedo = albedo"
      by (rule 2) (simp_all add: a)
    show ?thesis using ce 1 2 3 4 by blast
  qed
  show ?thesis
    apply (rule exI[of _ c], rule exI[of _ row], rule exI[of _ col], rule exI[of _ cx],
        rule exI[of _ cy], rule exI[of _ cz], rule exI[of _ fx], rule exI[of _ fy],
        rule exI[of _ fz], rule exI[of _ wi0], rule exI[of _ wm0])
    using a tw z la vd wi be ev by blast
qed

theorem clip_window_covers_image_witness:
  "\<exists>t. forward_trace (wide_layer ''ggx'' False True) wide_light wide_brdf wide_tracer
          wide_albedo wide_rough wide_metal wide_normal wide_vpos = Inr t \<and>
       shape wide_albedo = [1, 3, 2, 4] \<and> even (2 :: nat) \<and> even (4 :: nat) \<and>
       t_window t = clip_window 2 4 \<and> clip_extent 2 4 = (0, 2, 0, 4) \<and>
       in_clip_window 2 4 0 0 \<and> in_clip_window 2 4 1 3 \<and> \<not> in_spec_central_square 2 4 0 0 \<and>
       clip4 (t_window t) wide_albedo = wide_albedo \<and>
       clip4 (t_window t) wide_rough = wide_rough \<and>
       clip4 (t_window t) wide_metal = wide_metal \<and>
       t_irow t = 2 \<and> t_icol t = 4"
proof -
  from wide_trace[of True wide_tracer] obtain t
    where ft: "forward_trace (wide_layer ''ggx'' False True) wide_light wide_brdf wide_tracer
          wide_albedo wide_rough wide_metal wide_normal wide_vpos = Inr t"
      and sh: "t_irow t = 2" "t_icol t = 4"
    by blast
  have sa: "shape wide_albedo = [1, 3, 2, 4]" by (simp add: wide_albedo_def)
  from clip_window_covers_image[OF ft] obtain c row col
    where a: "shape wide_albedo = [1, c, row, col]"
      and tw: "t_window t = clip_window (int row) (int col)"
      and ev: "even row \<and> even col \<longrightarrow>
         clip_extent row col = (0, row, 0, col) \<and>
         (\<forall>i j. i < row \<and> j < col \<longrightarrow> in_clip_window row col i j) \<and>
         (\<forall>g :: real tensor. length (shape g) = 4 \<and> shape g ! 2 = row \<and> shape g ! 3 = col
             \<longrightarrow> clip4 (t_window t) g = g) \<and>
         (\<forall>g :: real tensor. length (shape g) = 5 \<and> shape g ! 3 = row \<and> shape g ! 4 = col
             \<longrightarrow> clip5 (t_window t) g = g) \<and>
         clip4 (t_window t) wide_albedo = wide_albedo"
    by blast
  from a sa have rc: "row = 2" "col = 4" by simp_all
  from ev[unfolded rc] have ce: "clip_extent 2 4 = (0, 2, 0, 4)"
    and ic: "\<forall>i j. i < 2 \<and> j < 4 \<longrightarrow> in_clip_window 2 4 i j"
    and g4: "\<forall>g :: real tensor. length (shape g) = 4 \<and> shape g ! 2 = 2 \<and> shape g ! 3 = 4
             \<longrightarrow> clip4 (t_window t) g = g"
    and ca: "clip4 (t_window t) wide_albedo = wide_albedo"
    by simp_all
  have i1: "in_clip_window 2 4 0 0" "in_clip_window 2 4 1 3"
    using ic by simp_all
  have cr: "clip4 (t_window t) wide_rough = wide_rough" "clip4 (t_window t) wide_metal = wide_metal"
    using g4 by (simp_all add: wide_rough_def wide_metal_def)
  have ns: "\<not> in_spec_central_square 2 4 0 0"
    by (simp add: in_spec_central_square_def spec_central_square_def Let_def)
  have tw2: "t_window t = clip_window 2 4" using tw rc by simp
  show ?thesis
    using ft sa tw2 ce i1 ns ca cr sh by auto
qed

section \<open>The traced sample\<close>



section \<open>The uncertainty of a traced ray\<close>





end
